theory Spec2Isabelle
  imports Main "HOL-Library.Sublist" "HOL-Library.AList"
begin

section \<open>Conversion of remote Wasm extension configs to local files\<close>

text \<open>
  This theory embeds the conversion adapter of package \<open>wasm\<close>
  (\<open>MaybeConvertWasmExtensionConfig\<close>, \<open>tryUnmarshal\<close>,
  \<open>convertWasmConfigFromRemoteToLocal\<close>, \<open>containsWamrAotInCustomSection\<close>) and the
  pull-secret substitution of \<open>InsertedExtensionConfigurations\<close>.

  Conventions of the embedding:
  \<^item> a Go pointer that may be \<open>nil\<close> is an \<open>option\<close>; the generated nil-safe getters
    (\<open>GetVmConfig\<close>, \<open>GetCode\<close>, ...) are functions on options;
  \<^item> Go strings and byte slices are both \<open>string\<close> (lists of 8-bit characters), so the
    conversions \<open>[]byte(s)\<close> and \<open>string(b)\<close> are the identity and a nil slice is \<open>[]\<close>;
  \<^item> a Go \<open>map[string]string\<close> is an association list read with \<open>map_of\<close>; the protobuf
    field that holds it is an \<open>option\<close>, because the code distinguishes a nil map;
  \<^item> an error is a value of \<open>conv_error\<close>: one constructor for each \<open>fmt.Errorf\<close> of the
    source, carrying the wrapped cause where the format uses \<open>%w\<close>. The text of the
    message (which prints whole protobuf messages) is not part of the model;
  \<^item> everything the code calls outside this package (protobuf marshalling, the fetch
    cache, the file system, the wazero module reader, go-version, the constants of other
    packages) is a field of the record \<open>lib\<close>, so every theorem holds for every
    behaviour of these collaborators. The cache and the file system share one world
    state of type \<open>'w\<close>, which \<open>cacheGet\<close> may change and \<open>ReadFile\<close> reads;
  \<^item> metrics and log output are not modelled.
\<close>

subsection \<open>Messages\<close>

type_synonym bytes = string

text \<open>Errors returned by collaborators outside this package.\<close>
type_synonym ext_error = string

text \<open>\<open>anypb.Any\<close>\<close>
record any =
  type_url :: string
  any_value :: bytes

text \<open>\<open>core.TypedExtensionConfig\<close>\<close>
record typed_extension_config =
  ec_name :: string
  typed_config :: "any option"

text \<open>\<open>udpa.TypedStruct\<close>; the \<open>structpb.Struct\<close> it carries is kept opaque.\<close>
record typed_struct =
  ts_type_url :: string
  ts_value :: "bytes option"

text \<open>\<open>durationpb.Duration\<close>\<close>
record duration =
  seconds :: int
  nanos :: int

text \<open>\<open>core.HttpUri\<close>\<close>
record http_uri =
  uri :: string
  cluster :: string
  timeout :: "duration option"

text \<open>\<open>core.RemoteDataSource\<close>\<close>
record remote_data_source =
  http_uri :: "http_uri option"
  sha256 :: string

text \<open>\<open>core.DataSource\<close> with its oneof \<open>Specifier\<close>.\<close>
datatype data_source =
    DataSource_None
  | DataSource_Filename string
  | DataSource_InlineBytes bytes
  | DataSource_InlineString string
  | DataSource_EnvironmentVariable string

text \<open>\<open>core.AsyncDataSource\<close> with its oneof \<open>Specifier\<close>.\<close>
datatype async_data_source =
    AsyncDataSource_None
  | AsyncDataSource_Local data_source
  | AsyncDataSource_Remote remote_data_source

text \<open>\<open>wasm.EnvironmentVariables\<close>\<close>
record environment_variables =
  host_env_keys :: "string list"
  key_values :: "(string \<times> string) list option"

text \<open>\<open>wasm.VmConfig\<close>\<close>
record vm_config =
  vm_id :: string
  runtime :: string
  vm_code :: "async_data_source option"
  vm_configuration :: "any option"
  allow_precompiled :: bool
  nack_on_code_cache_miss :: bool
  environment_variables :: "environment_variables option"

text \<open>\<open>wasm.PluginConfig\<close>\<close>
record plugin_config =
  pc_name :: string
  root_id :: string
  vm_config :: "vm_config option"
  pc_configuration :: "any option"
  fail_open :: bool

text \<open>\<open>wasm.Wasm\<close>, the Wasm HTTP filter.\<close>
record wasm =
  config :: "plugin_config option"

text \<open>A custom section of a compiled module (\<open>api.CustomSection\<close>).\<close>
record custom_section =
  cs_name :: string
  cs_data :: bytes

text \<open>\<open>GetOptions\<close>, the parameters of \<open>Cache.Get\<close>. A pull policy is the number of the
  protobuf enum \<open>extensions.PullPolicy\<close>.\<close>
record get_options =
  Checksum :: string
  ResourceName :: string
  ResourceVersion :: string
  RequestTimeout :: int
  PullSecret :: bytes
  PullPolicy :: int

subsection \<open>Errors\<close>

datatype conv_error =
    UnmarshalExtensionConfigFailed ext_error
  | NoTypedConfig
  | UnmarshalWasmFilterFailed ext_error
  | UnmarshalTypedStructFailed ext_error
  | StructToWasmFilterFailed
  | NoRemoteAndLocalLoad
  | MissingPullSecret
  | MissingHttpUri
  | FetchFailed ext_error
  | MarshalWasmFilterFailed ext_error
  | MarshalExtensionConfigFailed ext_error
  | MultiError "conv_error list"

subsection \<open>Collaborators\<close>

text \<open>
  The constants of packages \<open>xds\<close>, \<open>bootstrap\<close>, \<open>model\<close> and \<open>extensions\<close>, and the
  functions of the libraries the code calls. Each function is taken to return: a panic
  inside a library is outside the model. \<open>NewVersion\<close> returns \<open>None\<close> where
  go-version returns an error (and a nil pointer); \<open>LessThan\<close> takes the possibly nil
  pointer that the code passes as its argument, because the code discards the error of
  parsing \<open>wamrAotMaxVersion\<close>. \<open>CompileModule\<close> stands for \<open>r.CompileModule\<close> followed by
  \<open>CustomSections()\<close>: the custom sections the module reader reports, in order.
\<close>
record ('w, 'v) lib =
  WasmHTTPFilterType :: string
  TypedStructType :: string
  IstioMetaPrefix :: string
  WasmSecretEnv :: string
  WasmPolicyEnv :: string
  WasmResourceVersionEnv :: string
  PullPolicy_UNSPECIFIED_POLICY :: int
  PullPolicy_value :: "string \<Rightarrow> int option"
  UnmarshalToExtensionConfig :: "any \<Rightarrow> ext_error + typed_extension_config"
  UnmarshalToWasm :: "any \<Rightarrow> ext_error + wasm"
  UnmarshalToTypedStruct :: "any \<Rightarrow> ext_error + typed_struct"
  StructToMessage :: "bytes option \<Rightarrow> ext_error + wasm"
  anypbNewWasm :: "wasm \<Rightarrow> ext_error + any"
  anypbNewExtensionConfig :: "typed_extension_config \<Rightarrow> ext_error + any"
  AsDuration :: "duration \<Rightarrow> int"
  cacheGet :: "'w \<Rightarrow> string \<Rightarrow> get_options \<Rightarrow> (ext_error + string) \<times> 'w"
  ReadFile :: "'w \<Rightarrow> string \<Rightarrow> ext_error + bytes"
  CompileModule :: "bytes \<Rightarrow> ext_error + custom_section list"
  NewVersion :: "string \<Rightarrow> 'v option"
  LessThan :: "'v \<Rightarrow> 'v option \<Rightarrow> bool"

subsection \<open>Constants of the package\<close>

definition wamrRuntime :: string where
  "wamrRuntime = ''envoy.wasm.runtime.wamr''"

definition wamrAotPrefix :: string where
  "wamrAotPrefix = ''wamr-aot-''"

definition wamrAot :: string where
  "wamrAot = ''wamr-aot''"

definition wamrAotMaxVersion :: string where
  "wamrAotMaxVersion = ''2.1.0''"

subsection \<open>Strings and the generated getters\<close>

text \<open>\<open>strings.HasPrefix(s, p)\<close> and \<open>strings.TrimPrefix(s, p)\<close>\<close>
definition HasPrefix :: "string \<Rightarrow> string \<Rightarrow> bool" where
  "HasPrefix s p = prefix p s"

definition TrimPrefix :: "string \<Rightarrow> string \<Rightarrow> string" where
  "TrimPrefix s p = (if HasPrefix s p then drop (length p) s else s)"

definition GetVmConfig :: "plugin_config option \<Rightarrow> vm_config option" where
  "GetVmConfig x = (case x of None \<Rightarrow> None | Some c \<Rightarrow> vm_config c)"

definition GetEnvironmentVariables :: "vm_config option \<Rightarrow> environment_variables option" where
  "GetEnvironmentVariables x = (case x of None \<Rightarrow> None | Some v \<Rightarrow> environment_variables v)"

definition GetCode :: "vm_config option \<Rightarrow> async_data_source option" where
  "GetCode x = (case x of None \<Rightarrow> None | Some v \<Rightarrow> vm_code v)"

definition GetRemote :: "async_data_source option \<Rightarrow> remote_data_source option" where
  "GetRemote x = (case x of Some (AsyncDataSource_Remote r) \<Rightarrow> Some r | _ \<Rightarrow> None)"

definition GetLocal :: "async_data_source option \<Rightarrow> data_source option" where
  "GetLocal x = (case x of Some (AsyncDataSource_Local d) \<Rightarrow> Some d | _ \<Rightarrow> None)"

text \<open>Reading a Go map: \<open>v, found := m[k]\<close>; a nil map has no key.\<close>
definition KeyValuesLookup :: "(string \<times> string) list option \<Rightarrow> string \<Rightarrow> string option" where
  "KeyValuesLookup m k = (case m of None \<Rightarrow> None | Some kvs \<Rightarrow> map_of kvs k)"

text \<open>\<open>len(m)\<close> of a Go map (keys are distinct in a map).\<close>
definition KeyValuesLen :: "(string \<times> string) list option \<Rightarrow> nat" where
  "KeyValuesLen m = (case m of None \<Rightarrow> 0 | Some kvs \<Rightarrow> length kvs)"

subsection \<open>tryUnmarshal\<close>

text \<open>
  Lines 119 to 155 of \<open>tryUnmarshal\<close>: the resource is decoded as a typed extension
  config and, through the switch on its typed config, as a Wasm HTTP filter.
  \<open>Inr None\<close> is the return \<open>nil, nil, nil\<close> of the branches commented
  "This is not a Wasm filter".
\<close>
definition unmarshalWasmFilter ::
  "('w, 'v) lib \<Rightarrow> any \<Rightarrow> conv_error + (typed_extension_config \<times> wasm) option" where
  "unmarshalWasmFilter L resource =
     (case UnmarshalToExtensionConfig L resource of
        Inl err \<Rightarrow> Inl (UnmarshalExtensionConfigFailed err)
      | Inr ec \<Rightarrow>
          (case typed_config ec of
             None \<Rightarrow> Inl NoTypedConfig
           | Some tc \<Rightarrow>
               if type_url tc = WasmHTTPFilterType L then
                 (case UnmarshalToWasm L tc of
                    Inl err \<Rightarrow> Inl (UnmarshalWasmFilterFailed err)
                  | Inr wasmHTTPFilterConfig \<Rightarrow> Inr (Some (ec, wasmHTTPFilterConfig)))
               else if type_url tc = TypedStructType L then
                 (case UnmarshalToTypedStruct L tc of
                    Inl err \<Rightarrow> Inl (UnmarshalTypedStructFailed err)
                  | Inr typedStruct \<Rightarrow>
                      if ts_type_url typedStruct = WasmHTTPFilterType L then
                        (case StructToMessage L (ts_value typedStruct) of
                           Inl err \<Rightarrow> Inl StructToWasmFilterFailed
                         | Inr wasmHTTPFilterConfig \<Rightarrow> Inr (Some (ec, wasmHTTPFilterConfig)))
                      else Inr None)
               else Inr None))"

text \<open>
  \<open>tryUnmarshal\<close>: the decoding above, then lines 157 to 166. The result
  \<open>Inr (Some (ec, w))\<close> is the return of both messages, \<open>Inr None\<close> the return
  \<open>nil, nil, nil\<close>.
\<close>
definition tryUnmarshal ::
  "('w, 'v) lib \<Rightarrow> any \<Rightarrow> conv_error + (typed_extension_config \<times> wasm) option" where
  "tryUnmarshal L resource =
     (case unmarshalWasmFilter L resource of
        Inl err \<Rightarrow> Inl err
      | Inr None \<Rightarrow> Inr None
      | Inr (Some (ec, wasmHTTPFilterConfig)) \<Rightarrow>
          if GetRemote (GetCode (GetVmConfig (config wasmHTTPFilterConfig))) = None then
            if GetLocal (GetCode (GetVmConfig (config wasmHTTPFilterConfig))) = None
            then Inl NoRemoteAndLocalLoad
            else Inr None
          else Inr (Some (ec, wasmHTTPFilterConfig)))"

subsection \<open>containsWamrAotInCustomSection\<close>

text \<open>The loop over the custom sections, lines 303 to 317.\<close>
fun scanCustomSections :: "('w, 'v) lib \<Rightarrow> custom_section list \<Rightarrow> bool" where
  "scanCustomSections L [] = False"
| "scanCustomSections L (section # sections) =
     (if HasPrefix (cs_name section) wamrAotPrefix then
        (let versionPart = TrimPrefix (cs_name section) wamrAotPrefix in
         case NewVersion L versionPart of
           None \<Rightarrow> False
         | Some v1 \<Rightarrow>
             (let maxVersion = NewVersion L wamrAotMaxVersion in LessThan L v1 maxVersion))
      else if cs_name section = wamrAot then True
      else scanCustomSections L sections)"

definition containsWamrAotInCustomSection :: "('w, 'v) lib \<Rightarrow> 'w \<Rightarrow> string \<Rightarrow> bool" where
  "containsWamrAotInCustomSection L world wasmModulePath =
     (case ReadFile L world wasmModulePath of
        Inl err \<Rightarrow> False
      | Inr wasmBinary \<Rightarrow>
          (case CompileModule L wasmBinary of
             Inl err \<Rightarrow> False
           | Inr sections \<Rightarrow> scanCustomSections L sections))"

subsection \<open>convertWasmConfigFromRemoteToLocal\<close>

text \<open>
  Lines 198 to 212: every key with the internal prefix is deleted from the key/value
  map; when the map is then empty, the structure is dropped from the VM config if there
  are no host environment keys, and its map is set to nil otherwise.
\<close>
definition stripInternalEnvs ::
  "('w, 'v) lib \<Rightarrow> vm_config \<Rightarrow> environment_variables \<Rightarrow> vm_config" where
  "stripInternalEnvs L vm envs =
     (let keyValues =
            map_option (filter (\<lambda>(k, v). \<not> HasPrefix k (IstioMetaPrefix L))) (key_values envs)
      in if KeyValuesLen keyValues = 0 then
           if length (host_env_keys envs) = 0
           then vm\<lparr>environment_variables := None\<rparr>
           else vm\<lparr>environment_variables := Some (envs\<lparr>key_values := None\<rparr>)\<rparr>
         else vm\<lparr>environment_variables := Some (envs\<lparr>key_values := keyValues\<rparr>)\<rparr>)"

text \<open>
  Lines 177 to 213: the pull secret, the pull policy and the resource version are read
  from the environment variables of the VM config, which are then stripped. The result
  is the error of line 186, or the three values with the VM config as the block leaves
  it. A nil VM config has no environment variables.
\<close>
definition readPullSettings ::
  "('w, 'v) lib \<Rightarrow> vm_config option \<Rightarrow>
     conv_error + (bytes \<times> int \<times> string \<times> vm_config option)" where
  "readPullSettings L vm =
     (case vm of
        None \<Rightarrow> Inr ([], PullPolicy_UNSPECIFIED_POLICY L, [], None)
      | Some v \<Rightarrow>
          (case environment_variables v of
             None \<Rightarrow> Inr ([], PullPolicy_UNSPECIFIED_POLICY L, [], Some v)
           | Some envs \<Rightarrow>
               (let secret = KeyValuesLookup (key_values envs) (WasmSecretEnv L) in
                if secret = Some [] then Inl MissingPullSecret
                else
                  (let pullSecret = (case secret of None \<Rightarrow> [] | Some sec \<Rightarrow> sec);
                       pullPolicy =
                         (case KeyValuesLookup (key_values envs) (WasmPolicyEnv L) of
                            None \<Rightarrow> PullPolicy_UNSPECIFIED_POLICY L
                          | Some ps \<Rightarrow>
                              (case PullPolicy_value L ps of
                                 None \<Rightarrow> PullPolicy_UNSPECIFIED_POLICY L
                               | Some p \<Rightarrow> p));
                       resourceVersion =
                         (case KeyValuesLookup (key_values envs) (WasmResourceVersionEnv L) of
                            None \<Rightarrow> []
                          | Some rv \<Rightarrow> rv)
                   in Inr (pullSecret, pullPolicy, resourceVersion,
                           Some (stripInternalEnvs L v envs))))))"

text \<open>
  Lines 245 to 263: the runtime hint and the rewrite of the code source to the local
  file \<open>f\<close>.
\<close>
definition rewriteToLocal :: "bool \<Rightarrow> string \<Rightarrow> vm_config \<Rightarrow> vm_config" where
  "rewriteToLocal hasWamrAotSection f vm =
     (let vm1 = (if hasWamrAotSection
                 then vm\<lparr>runtime := wamrRuntime, allow_precompiled := True\<rparr>
                 else vm)
      in vm1\<lparr>vm_code := Some (AsyncDataSource_Local (DataSource_Filename f))\<rparr>)"

text \<open>
  The function itself. It changes the VM config inside \<open>wasmHTTPFilterConfig\<close> in place;
  the model rebuilds the filter config around the changed VM config before it is
  marshalled. \<open>remote.GetHttpUri()\<close> is nil when \<open>remote\<close> is nil, and \<open>remote\<close> is nil
  when the VM config is. The second component of the result is the world after the
  call of the cache.
\<close>
definition convertWasmConfigFromRemoteToLocal ::
  "('w, 'v) lib \<Rightarrow> typed_extension_config \<Rightarrow> wasm \<Rightarrow> 'w \<Rightarrow> (conv_error + any) \<times> 'w" where
  "convertWasmConfigFromRemoteToLocal L ec wasmHTTPFilterConfig cache =
     (case readPullSettings L (GetVmConfig (config wasmHTTPFilterConfig)) of
        Inl err \<Rightarrow> (Inl err, cache)
      | Inr (pullSecret, pullPolicy, resourceVersion, vmo) \<Rightarrow>
          (case vmo of
             None \<Rightarrow> (Inl MissingHttpUri, cache)
           | Some vm \<Rightarrow>
               (case GetRemote (vm_code vm) of
                  None \<Rightarrow> (Inl MissingHttpUri, cache)
                | Some remote \<Rightarrow>
                    (case http_uri remote of
                       None \<Rightarrow> (Inl MissingHttpUri, cache)
                     | Some httpURI \<Rightarrow>
                         (let checksum = (if sha256 remote = ''nil'' then [] else sha256 remote);
                              timeout = (case timeout httpURI of
                                           None \<Rightarrow> 5 * 1000000000
                                         | Some d \<Rightarrow> AsDuration L d)
                          in case cacheGet L cache (uri httpURI)
                                    \<lparr>Checksum = checksum,
                                     ResourceName = ec_name ec,
                                     ResourceVersion = resourceVersion,
                                     RequestTimeout = timeout,
                                     PullSecret = pullSecret,
                                     PullPolicy = pullPolicy\<rparr> of
                               (Inl err, cache') \<Rightarrow> (Inl (FetchFailed err), cache')
                             | (Inr f, cache') \<Rightarrow>
                                 (let hasWamrAotSection = containsWamrAotInCustomSection L cache' f;
                                      vm' = rewriteToLocal hasWamrAotSection f vm;
                                      wasmHTTPFilterConfig' =
                                        wasmHTTPFilterConfig
                                          \<lparr>config := map_option (\<lambda>c. c\<lparr>vm_config := Some vm'\<rparr>)
                                                     (config wasmHTTPFilterConfig)\<rparr>
                                  in case anypbNewWasm L wasmHTTPFilterConfig' of
                                       Inl err \<Rightarrow> (Inl (MarshalWasmFilterFailed err), cache')
                                     | Inr wasmTypedConfig \<Rightarrow>
                                         (case anypbNewExtensionConfig L
                                                 (ec\<lparr>typed_config := Some wasmTypedConfig\<rparr>) of
                                            Inl err \<Rightarrow> (Inl (MarshalExtensionConfigFailed err), cache')
                                          | Inr nec \<Rightarrow> (Inr nec, cache'))))))))"

subsection \<open>MaybeConvertWasmExtensionConfig\<close>

text \<open>
  Modelled from the spec: the library go-multierror is not part of the sources. The
  spec describes its result as the aggregate of all individual errors. \<open>Append(nil, errs...)\<close>
  collects the errors that are not nil, in order, taking the members of an error that is
  itself a multi-error, and \<open>ErrorOrNil\<close> is nil when nothing was collected.
\<close>
definition multierrorAppend :: "conv_error option list \<Rightarrow> conv_error list" where
  "multierrorAppend errs =
     concat (map (\<lambda>e. case e of None \<Rightarrow> [] | Some (MultiError es) \<Rightarrow> es | Some err \<Rightarrow> [err]) errs)"

definition ErrorOrNil :: "conv_error list \<Rightarrow> conv_error option" where
  "ErrorOrNil es = (if es = [] then None else Some (MultiError es))"

text \<open>
  The state the goroutines share: the slice \<open>resources\<close>, the slice \<open>convertErrs\<close> and
  the world behind the cache.
\<close>
type_synonym 'w batch = "any list \<times> conv_error option list \<times> 'w"

text \<open>The body of the goroutine started for index \<open>i\<close>, lines 77 to 104.\<close>
definition goroutine :: "('w, 'v) lib \<Rightarrow> nat \<Rightarrow> 'w batch \<Rightarrow> 'w batch" where
  "goroutine L i = (\<lambda>(resources, convertErrs, cache).
     case tryUnmarshal L (resources ! i) of
       Inl err \<Rightarrow> (resources, convertErrs[i := Some err], cache)
     | Inr None \<Rightarrow> (resources, convertErrs, cache)
     | Inr (Some (extConfig, wasmConfig)) \<Rightarrow>
         (case convertWasmConfigFromRemoteToLocal L extConfig wasmConfig cache of
            (Inl err, cache') \<Rightarrow> (resources, convertErrs[i := Some err], cache')
          | (Inr newExtensionConfig, cache') \<Rightarrow>
              (resources[i := newExtensionConfig], convertErrs, cache')))"

text \<open>
  The goroutines run concurrently. The model runs their bodies one after another in the
  order \<open>schedule\<close>, which lists the indices \<open>0, ..., len(resources) - 1\<close> in any order:
  each body reads and writes only its own slot of the two slices, and the world behind
  the cache.
\<close>
definition runGoroutines :: "('w, 'v) lib \<Rightarrow> nat list \<Rightarrow> any list \<Rightarrow> 'w \<Rightarrow> 'w batch" where
  "runGoroutines L schedule resources cache =
     fold (goroutine L) schedule (resources, replicate (length resources) None, cache)"

definition validSchedule :: "nat list \<Rightarrow> nat \<Rightarrow> bool" where
  "validSchedule schedule numResources \<longleftrightarrow>
     distinct schedule \<and> set schedule = {0..<numResources}"

text \<open>
  \<open>MaybeConvertWasmExtensionConfig\<close>: the resources as the goroutines leave them, the
  returned error, and the world.
\<close>
definition MaybeConvertWasmExtensionConfig ::
  "('w, 'v) lib \<Rightarrow> nat list \<Rightarrow> any list \<Rightarrow> 'w \<Rightarrow> any list \<times> conv_error option \<times> 'w" where
  "MaybeConvertWasmExtensionConfig L schedule resources cache =
     (case runGoroutines L schedule resources cache of
        (resources', convertErrs, cache') \<Rightarrow>
          (resources', ErrorOrNil (multierrorAppend convertErrs), cache'))"

subsection \<open>The pull secret in InsertedExtensionConfigurations\<close>

text \<open>
  Lines 119 to 127 of \<open>InsertedExtensionConfigurations\<close>: the name of the secret in the
  environment variables of the VM config is replaced by the secret, or by the empty
  string when \<open>pullSecrets\<close> has no secret of that name.
\<close>
definition substitutePullSecret ::
  "('w, 'v) lib \<Rightarrow> (string \<Rightarrow> bytes option) \<Rightarrow>
     (string \<times> string) list option \<Rightarrow> (string \<times> string) list option" where
  "substitutePullSecret L pullSecrets envs =
     (let secretName = (case KeyValuesLookup envs (WasmSecretEnv L) of None \<Rightarrow> [] | Some n \<Rightarrow> n)
      in if secretName \<noteq> [] then
           (case pullSecrets secretName of
              Some sec \<Rightarrow> map_option (AList.update (WasmSecretEnv L) sec) envs
            | None \<Rightarrow> map_option (AList.update (WasmSecretEnv L) []) envs)
         else envs)"

section \<open>Notions used to state the properties\<close>

subsection \<open>The runtime hint\<close>

text \<open>
  The first custom section whose name starts with \<open>wamr-aot-\<close>, whether the version
  after that prefix parses and is less than \<open>wamrAotMaxVersion\<close>, and whether a section
  named \<open>wamr-aot\<close> comes before every section with the prefix.
\<close>
definition firstVersionedSection :: "custom_section list \<Rightarrow> custom_section option" where
  "firstVersionedSection sections = find (\<lambda>s. HasPrefix (cs_name s) wamrAotPrefix) sections"

definition versionBelowMax :: "('w, 'v) lib \<Rightarrow> custom_section \<Rightarrow> bool" where
  "versionBelowMax L s \<longleftrightarrow>
     (case NewVersion L (drop (length wamrAotPrefix) (cs_name s)) of
        None \<Rightarrow> False
      | Some v \<Rightarrow> LessThan L v (NewVersion L wamrAotMaxVersion))"

definition bareSectionBeforeVersioned :: "custom_section list \<Rightarrow> bool" where
  "bareSectionBeforeVersioned sections \<longleftrightarrow>
     wamrAot \<in> set (map cs_name
                   (takeWhile (\<lambda>s. \<not> HasPrefix (cs_name s) wamrAotPrefix) sections))"

definition wamrHintGranted :: "('w, 'v) lib \<Rightarrow> custom_section list \<Rightarrow> bool" where
  "wamrHintGranted L sections \<longleftrightarrow>
     (case firstVersionedSection sections of None \<Rightarrow> False | Some s \<Rightarrow> versionBelowMax L s)
     \<or> bareSectionBeforeVersioned sections"

text \<open>A section the loop passes over: neither branch of its body returns.\<close>
definition skippedSection :: "custom_section \<Rightarrow> bool" where
  "skippedSection s \<longleftrightarrow> \<not> HasPrefix (cs_name s) wamrAotPrefix \<and> cs_name s \<noteq> wamrAot"

text \<open>A library whose files can never be read, so that the inspection gives no hint.\<close>
definition withoutInspection :: "('w, 'v) lib \<Rightarrow> ('w, 'v) lib" where
  "withoutInspection L = L\<lparr>ReadFile := \<lambda>world path. Inl []\<rparr>"

subsection \<open>The environment variables of a filter config\<close>

definition envPairs :: "wasm \<Rightarrow> (string \<times> string) list" where
  "envPairs w =
     (case GetEnvironmentVariables (GetVmConfig (config w)) of
        None \<Rightarrow> []
      | Some envs \<Rightarrow> (case key_values envs of None \<Rightarrow> [] | Some kvs \<Rightarrow> kvs))"

definition envHostKeys :: "wasm \<Rightarrow> string list" where
  "envHostKeys w =
     (case GetEnvironmentVariables (GetVmConfig (config w)) of
        None \<Rightarrow> []
      | Some envs \<Rightarrow> host_env_keys envs)"

definition noInternalKey :: "('w, 'v) lib \<Rightarrow> (string \<times> string) list \<Rightarrow> bool" where
  "noInternalKey L kvs \<longleftrightarrow> list_all (\<lambda>(k, v). \<not> HasPrefix k (IstioMetaPrefix L)) kvs"

text \<open>
  The structure of environment variables is absent, or its key/value map is nil and
  host keys remain, or its key/value map has an entry.
\<close>
definition envsNotEmpty :: "wasm \<Rightarrow> bool" where
  "envsNotEmpty w \<longleftrightarrow>
     (case GetEnvironmentVariables (GetVmConfig (config w)) of
        None \<Rightarrow> True
      | Some envs \<Rightarrow>
          (case key_values envs of None \<Rightarrow> host_env_keys envs \<noteq> [] | Some kvs \<Rightarrow> kvs \<noteq> []))"

subsection \<open>The checksum of the remote source\<close>

definition remoteChecksum :: "wasm \<Rightarrow> string option" where
  "remoteChecksum w = map_option sha256 (GetRemote (GetCode (GetVmConfig (config w))))"

text \<open>The same filter config with the checksum of its remote source replaced.\<close>
definition withChecksum :: "string \<Rightarrow> wasm \<Rightarrow> wasm" where
  "withChecksum s w =
     w\<lparr>config := map_option (\<lambda>c. c\<lparr>vm_config := map_option (\<lambda>vm. vm\<lparr>vm_code :=
          map_option (\<lambda>code. case code of
              AsyncDataSource_Remote r \<Rightarrow> AsyncDataSource_Remote (r\<lparr>sha256 := s\<rparr>)
            | other \<Rightarrow> other) (vm_code vm)\<rparr>) (vm_config c)\<rparr>) (config w)\<rparr>"

text \<open>A library whose cache is always asked with the given checksum, or pull policy.\<close>
definition cacheSeesChecksum :: "string \<Rightarrow> ('w, 'v) lib \<Rightarrow> ('w, 'v) lib" where
  "cacheSeesChecksum s L =
     L\<lparr>cacheGet := \<lambda>world u opts. cacheGet L world u (opts\<lparr>Checksum := s\<rparr>)\<rparr>"

definition cacheSeesPolicy :: "int \<Rightarrow> ('w, 'v) lib \<Rightarrow> ('w, 'v) lib" where
  "cacheSeesPolicy p L =
     L\<lparr>cacheGet := \<lambda>world u opts. cacheGet L world u (opts\<lparr>PullPolicy := p\<rparr>)\<rparr>"

subsection \<open>One resource of the batch\<close>

text \<open>
  What the adapter owes a single resource, seen on its own: the resource and the error
  recorded for it, and the world after it. An error of \<open>tryUnmarshal\<close> or of the
  conversion is recorded and the resource kept; a resource that is not a remote Wasm
  filter is kept without an error; a converted resource replaces the original.
\<close>
definition resourceOutcome ::
  "('w, 'v) lib \<Rightarrow> any \<Rightarrow> 'w \<Rightarrow> (any \<times> conv_error option) \<times> 'w" where
  "resourceOutcome L resource world =
     (case tryUnmarshal L resource of
        Inl err \<Rightarrow> ((resource, Some err), world)
      | Inr None \<Rightarrow> ((resource, None), world)
      | Inr (Some (ec, wasmConfig)) \<Rightarrow>
          (case convertWasmConfigFromRemoteToLocal L ec wasmConfig world of
             (Inl err, world') \<Rightarrow> ((resource, Some err), world')
           | (Inr nec, world') \<Rightarrow> ((nec, None), world')))"

text \<open>The world the goroutine of index \<open>i\<close> finds: the one left by those scheduled before it.\<close>
definition worldSeenBy :: "('w, 'v) lib \<Rightarrow> nat list \<Rightarrow> any list \<Rightarrow> 'w \<Rightarrow> nat \<Rightarrow> 'w" where
  "worldSeenBy L schedule resources cache i =
     snd (snd (runGoroutines L (takeWhile (\<lambda>j. j \<noteq> i) schedule) resources cache))"

text \<open>The errors of \<open>convertErrs\<close> that are not nil, in order.\<close>
definition collectedErrors :: "conv_error option list \<Rightarrow> conv_error list" where
  "collectedErrors convertErrs = map the (filter (\<lambda>e. e \<noteq> None) convertErrs)"

text \<open>
  Processing the resource leaves the world as it was: the resource is settled before
  the cache is asked, or the cache does not change the world.
\<close>
definition leavesWorldUntouched :: "('w, 'v) lib \<Rightarrow> any \<Rightarrow> bool" where
  "leavesWorldUntouched L resource \<longleftrightarrow>
     (\<forall>world. snd (resourceOutcome L resource world) = world)"

text \<open>
  \<open>neitherRemoteNorLocal\<close>: the resource decodes as a Wasm HTTP filter that names
  neither a remote nor a local code source. \<open>noRemoteModule\<close>: the resource decodes as
  an extension config whose typed config is of another type than the Wasm HTTP filter
  (the branches of \<open>tryUnmarshal\<close> commented "This is not a Wasm filter"), or as a Wasm
  HTTP filter with a local code source ("This has a local Wasm"). A resource that does
  not decode, or has no typed config, is neither: the code returns an error for it.
\<close>
definition neitherRemoteNorLocal :: "('w, 'v) lib \<Rightarrow> any \<Rightarrow> bool" where
  "neitherRemoteNorLocal L resource \<longleftrightarrow>
     (case unmarshalWasmFilter L resource of
        Inr (Some (ec, w)) \<Rightarrow>
          GetRemote (GetCode (GetVmConfig (config w))) = None \<and>
          GetLocal (GetCode (GetVmConfig (config w))) = None
      | _ \<Rightarrow> False)"

definition noRemoteModule :: "('w, 'v) lib \<Rightarrow> any \<Rightarrow> bool" where
  "noRemoteModule L resource \<longleftrightarrow>
     (case unmarshalWasmFilter L resource of
        Inr None \<Rightarrow> True
      | Inr (Some (ec, w)) \<Rightarrow>
          GetRemote (GetCode (GetVmConfig (config w))) = None \<and>
          GetLocal (GetCode (GetVmConfig (config w))) \<noteq> None
      | Inl err \<Rightarrow> False)"

section \<open>A library and messages to instantiate the theorems\<close>

text \<open>
  Versions are lists of numbers compared lexicographically; a file of the cache
  directory holds the name of the module; the world is the list of files in the cache
  directory; the cache fetches from one host and accepts no checksum but the empty one;
  the bytes of a resource name the message they decode to.
\<close>
fun versionLess :: "nat list \<Rightarrow> nat list \<Rightarrow> bool" where
  "versionLess [] [] = False"
| "versionLess [] (y # ys) = True"
| "versionLess (x # xs) [] = False"
| "versionLess (x # xs) (y # ys) = (x < y \<or> (x = y \<and> versionLess xs ys))"

definition exampleSections :: "bytes \<Rightarrow> ext_error + custom_section list" where
  "exampleSections wasmBinary =
     (if wasmBinary = ''old'' then
        Inr [\<lparr>cs_name = ''name'', cs_data = []\<rparr>, \<lparr>cs_name = ''wamr-aot-1.0.0'', cs_data = []\<rparr>]
      else if wasmBinary = ''new'' then
        Inr [\<lparr>cs_name = ''wamr-aot-2.1.0'', cs_data = []\<rparr>, \<lparr>cs_name = ''wamr-aot'', cs_data = []\<rparr>]
      else if wasmBinary = ''dev'' then
        Inr [\<lparr>cs_name = ''name'', cs_data = []\<rparr>, \<lparr>cs_name = ''wamr-aot-dev'', cs_data = []\<rparr>]
      else if wasmBinary = ''plain'' then
        Inr [\<lparr>cs_name = ''name'', cs_data = []\<rparr>]
      else Inl ''invalid magic number'')"

definition exampleWasm :: "(string \<times> string) list \<Rightarrow> async_data_source option \<Rightarrow> wasm" where
  "exampleWasm kvs code =
     \<lparr>config = Some
        \<lparr>pc_name = ''plugin'', root_id = [],
         vm_config = Some
           \<lparr>vm_id = [], runtime = ''envoy.wasm.runtime.v8'', vm_code = code,
            vm_configuration = None, allow_precompiled = False,
            nack_on_code_cache_miss = False,
            environment_variables = Some \<lparr>host_env_keys = [], key_values = Some kvs\<rparr>\<rparr>,
         pc_configuration = None, fail_open = False\<rparr>\<rparr>"

definition exampleRemote :: "string \<Rightarrow> string \<Rightarrow> async_data_source option" where
  "exampleRemote module checksum =
     Some (AsyncDataSource_Remote
       \<lparr>http_uri = Some \<lparr>uri = ''https://example/'' @ module, cluster = [], timeout = None\<rparr>,
        sha256 = checksum\<rparr>)"

definition exampleDecode :: "bytes \<Rightarrow> ext_error + wasm" where
  "exampleDecode b =
     (if b = ''remote'' then
        Inr (exampleWasm [(''ISTIO_META_POLICY'', ''Sometimes''), (''MODE'', ''strict'')]
               (exampleRemote ''old'' ''nil''))
      else if b = ''local'' then
        Inr (exampleWasm [] (Some (AsyncDataSource_Local (DataSource_Filename ''/etc/m.wasm''))))
      else if b = ''neither'' then Inr (exampleWasm [] None)
      else Inl ''proto: cannot parse'')"

definition exampleLib :: "(string list, nat list) lib" where
  "exampleLib =
     \<lparr>WasmHTTPFilterType = ''type/Wasm'',
      TypedStructType = ''type/TypedStruct'',
      IstioMetaPrefix = ''ISTIO_META_'',
      WasmSecretEnv = ''ISTIO_META_SECRET'',
      WasmPolicyEnv = ''ISTIO_META_POLICY'',
      WasmResourceVersionEnv = ''ISTIO_META_VERSION'',
      PullPolicy_UNSPECIFIED_POLICY = 0,
      PullPolicy_value = map_of [(''UNSPECIFIED_POLICY'', 0), (''IfNotPresent'', 1), (''Always'', 2)],
      UnmarshalToExtensionConfig =
        (\<lambda>a. if type_url a = ''type/TypedExtensionConfig''
              then Inr \<lparr>ec_name = any_value a,
                        typed_config = Some \<lparr>type_url = (if any_value a = ''rbac''
                                                          then ''type/RBAC'' else ''type/Wasm''),
                                             any_value = any_value a\<rparr>\<rparr>
              else Inl ''mismatched message type''),
      UnmarshalToWasm = (\<lambda>a. exampleDecode (any_value a)),
      UnmarshalToTypedStruct = (\<lambda>a. Inl ''mismatched message type''),
      StructToMessage = (\<lambda>s. Inl ''nil struct''),
      anypbNewWasm =
        (\<lambda>w. Inr \<lparr>type_url = ''type/Wasm'',
                   any_value = (case GetLocal (GetCode (GetVmConfig (config w))) of
                                  Some (DataSource_Filename f) \<Rightarrow> f
                                | _ \<Rightarrow> [])\<rparr>),
      anypbNewExtensionConfig =
        (\<lambda>ec. Inr \<lparr>type_url = ''type/TypedExtensionConfig'',
                    any_value = (case typed_config ec of None \<Rightarrow> [] | Some tc \<Rightarrow> any_value tc)\<rparr>),
      AsDuration = (\<lambda>d. seconds d * 1000000000 + nanos d),
      cacheGet =
        (\<lambda>world u opts.
           if \<not> HasPrefix u ''https://example/'' then (Inl ''fetch failed'', world)
           else if Checksum opts \<noteq> [] then (Inl ''checksum mismatch'', world)
           else (Inr (''/cache/'' @ TrimPrefix u ''https://example/''),
                 (''/cache/'' @ TrimPrefix u ''https://example/'') # world)),
      ReadFile =
        (\<lambda>world path. if path \<in> set world then Inr (TrimPrefix path ''/cache/'')
                       else Inl ''no such file''),
      CompileModule = exampleSections,
      NewVersion = map_of [(''1.0.0'', [1, 0, 0]), (''2.1.0'', [2, 1, 0]), (''3.0.0'', [3, 0, 0])],
      LessThan = (\<lambda>v other. case other of None \<Rightarrow> False | Some m \<Rightarrow> versionLess v m)\<rparr>"

definition exampleResource :: "bytes \<Rightarrow> any" where
  "exampleResource b = \<lparr>type_url = ''type/TypedExtensionConfig'', any_value = b\<rparr>"

definition exampleExtensionConfig :: typed_extension_config where
  "exampleExtensionConfig = \<lparr>ec_name = ''plugin'', typed_config = None\<rparr>"

section \<open>Auxiliary facts\<close>

subsection \<open>The loop over the custom sections\<close>

lemma wamrAot_not_versioned: "\<not> HasPrefix wamrAot wamrAotPrefix"
  by (simp add: HasPrefix_def wamrAot_def wamrAotPrefix_def)

lemma scan_iff: "scanCustomSections L sections \<longleftrightarrow> wamrHintGranted L sections"
proof (induction sections)
  case Nil
  show ?case
    by (simp add: wamrHintGranted_def firstVersionedSection_def bareSectionBeforeVersioned_def)
next
  case (Cons s sections)
  show ?case
  proof (cases "HasPrefix (cs_name s) wamrAotPrefix")
    case True
    then show ?thesis
      by (simp add: wamrHintGranted_def firstVersionedSection_def bareSectionBeforeVersioned_def
          versionBelowMax_def TrimPrefix_def split: option.splits)
  next
    case False
    then show ?thesis
      using Cons.IH
      by (auto simp add: wamrHintGranted_def firstVersionedSection_def bareSectionBeforeVersioned_def)
  qed
qed

lemma scan_prefix_only:
  "\<exists>s \<in> set (take n sections). HasPrefix (cs_name s) wamrAotPrefix \<Longrightarrow>
   scanCustomSections L sections = scanCustomSections L (take n sections)"
proof (induction sections arbitrary: n)
  case Nil
  then show ?case by simp
next
  case (Cons s sections)
  then show ?case by (cases n) auto
qed

lemma scan_skip:
  "list_all skippedSection pre \<Longrightarrow>
   scanCustomSections L (pre @ rest) = scanCustomSections L rest"
  by (induction pre) (auto simp add: skippedSection_def)

subsection \<open>The conversion of one filter config\<close>

lemma readPullSettings_cacheGet [simp]:
  "readPullSettings (L\<lparr>cacheGet := g\<rparr>) vm = readPullSettings L vm"
  by (simp add: readPullSettings_def stripInternalEnvs_def Let_def split: option.splits)

lemma readPullSettings_ReadFile [simp]:
  "readPullSettings (L\<lparr>ReadFile := g\<rparr>) vm = readPullSettings L vm"
  by (simp add: readPullSettings_def stripInternalEnvs_def Let_def split: option.splits)

lemma scan_cacheGet [simp]:
  "scanCustomSections (L\<lparr>cacheGet := g\<rparr>) sections = scanCustomSections L sections"
  by (induction sections) (simp_all add: Let_def split: option.splits)

lemma contains_cacheGet [simp]:
  "containsWamrAotInCustomSection (L\<lparr>cacheGet := g\<rparr>) = containsWamrAotInCustomSection L"
  by (simp add: containsWamrAotInCustomSection_def fun_eq_iff split: sum.splits)

lemma readPullSettings_code:
  "readPullSettings L (Some (vm\<lparr>vm_code := x\<rparr>)) =
     map_sum id (\<lambda>(a, b, c, vmo). (a, b, c, map_option (\<lambda>v. v\<lparr>vm_code := x\<rparr>) vmo))
       (readPullSettings L (Some vm))"
  by (simp add: readPullSettings_def stripInternalEnvs_def Let_def split: option.splits)

lemma readPullSettings_keeps_code:
  "readPullSettings L (Some vm) = Inr (a, b, c, vmo) \<Longrightarrow> \<exists>vm'. vmo = Some vm' \<and> vm_code vm' = vm_code vm"
  by (auto simp add: readPullSettings_def stripInternalEnvs_def Let_def split: option.splits if_splits)

lemma rewriteToLocal_code [simp]:
  "rewriteToLocal h f (vm\<lparr>vm_code := x\<rparr>) = rewriteToLocal h f vm"
  by (simp add: rewriteToLocal_def)

lemma convert_missing_secret:
  assumes "GetEnvironmentVariables (GetVmConfig (config w)) = Some envs"
    and "KeyValuesLookup (key_values envs) (WasmSecretEnv L) = Some []"
  shows "convertWasmConfigFromRemoteToLocal L ec w c = (Inl MissingPullSecret, c)"
proof -
  from assms(1) obtain vm where vm: "GetVmConfig (config w) = Some vm"
    "environment_variables vm = Some envs"
    by (auto simp add: GetEnvironmentVariables_def split: option.splits)
  have "readPullSettings L (Some vm) = Inl MissingPullSecret"
    using vm assms(2) by (simp add: readPullSettings_def)
  then show ?thesis
    using vm by (simp add: convertWasmConfigFromRemoteToLocal_def)
qed

lemma convert_nil_checksum:
  assumes "remoteChecksum w = Some ''nil''"
  shows "convertWasmConfigFromRemoteToLocal L ec w c =
         convertWasmConfigFromRemoteToLocal L ec (withChecksum [] w) c"
proof -
  from assms obtain pc vm r where w: "config w = Some pc" "vm_config pc = Some vm"
    "vm_code vm = Some (AsyncDataSource_Remote r)" "sha256 r = ''nil''"
    by (auto simp add: remoteChecksum_def GetRemote_def GetCode_def GetVmConfig_def
        split: option.splits async_data_source.splits)
  have w': "withChecksum [] w =
     w\<lparr>config := Some (pc\<lparr>vm_config := Some (vm\<lparr>vm_code := Some (AsyncDataSource_Remote (r\<lparr>sha256 := []\<rparr>))\<rparr>)\<rparr>)\<rparr>"
    using w by (simp add: withChecksum_def)
  show ?thesis
  proof (cases "readPullSettings L (Some vm)")
    case (Inl e)
    then show ?thesis using w
      by (simp add: w' convertWasmConfigFromRemoteToLocal_def GetVmConfig_def readPullSettings_code)
  next
    case (Inr t)
    obtain a b d vmo where t: "t = (a, b, d, vmo)" by (metis surj_pair)
    obtain vm' where vm': "vmo = Some vm'" "vm_code vm' = vm_code vm"
      using readPullSettings_keeps_code Inr t by blast
    show ?thesis using w Inr t vm'
      by (simp add: w' convertWasmConfigFromRemoteToLocal_def GetVmConfig_def readPullSettings_code
          GetRemote_def Let_def split: option.splits sum.splits prod.splits)
  qed
qed

lemma convert_cache_sees_empty_checksum:
  assumes "remoteChecksum w = Some ''nil''"
  shows "convertWasmConfigFromRemoteToLocal L ec w c =
         convertWasmConfigFromRemoteToLocal (cacheSeesChecksum [] L) ec w c"
proof -
  from assms obtain pc vm r where w: "config w = Some pc" "vm_config pc = Some vm"
    "vm_code vm = Some (AsyncDataSource_Remote r)" "sha256 r = ''nil''"
    by (auto simp add: remoteChecksum_def GetRemote_def GetCode_def GetVmConfig_def
        split: option.splits async_data_source.splits)
  show ?thesis
  proof (cases "readPullSettings L (Some vm)")
    case (Inl e)
    then show ?thesis using w
      by (simp add: convertWasmConfigFromRemoteToLocal_def GetVmConfig_def cacheSeesChecksum_def)
  next
    case (Inr t)
    obtain a b d vmo where t: "t = (a, b, d, vmo)" by (metis surj_pair)
    obtain vm' where vm': "vmo = Some vm'" "vm_code vm' = vm_code vm"
      using readPullSettings_keeps_code Inr t by blast
    show ?thesis using w Inr t vm'
      by (simp add: convertWasmConfigFromRemoteToLocal_def GetVmConfig_def cacheSeesChecksum_def
          GetRemote_def Let_def split: option.splits sum.splits prod.splits)
  qed
qed

lemma stripInternalEnvs_pairs:
  "environment_variables (stripInternalEnvs L vm envs) = envs' \<Longrightarrow>
   (case envs' of None \<Rightarrow> [] | Some e \<Rightarrow> (case key_values e of None \<Rightarrow> [] | Some kvs \<Rightarrow> kvs)) =
     filter (\<lambda>(k, v). \<not> HasPrefix k (IstioMetaPrefix L))
       (case key_values envs of None \<Rightarrow> [] | Some kvs \<Rightarrow> kvs)
   \<and> (case envs' of None \<Rightarrow> [] | Some e \<Rightarrow> host_env_keys e) = host_env_keys envs
   \<and> (case envs' of None \<Rightarrow> True
       | Some e \<Rightarrow> (case key_values e of None \<Rightarrow> host_env_keys e \<noteq> [] | Some kvs \<Rightarrow> kvs \<noteq> []))"
  by (auto simp add: stripInternalEnvs_def Let_def KeyValuesLen_def split: option.splits if_splits)

lemma readPullSettings_envs:
  assumes "readPullSettings L (Some vm) = Inr (a, b, d, vmo)"
    and "environment_variables vm = Some envs"
  shows "vmo = Some (stripInternalEnvs L vm envs)"
  using assms by (auto simp add: readPullSettings_def Let_def split: option.splits if_splits)

lemma readPullSettings_no_envs:
  assumes "readPullSettings L (Some vm) = Inr (a, b, d, vmo)"
    and "environment_variables vm = None"
  shows "vmo = Some vm"
  using assms by (auto simp add: readPullSettings_def Let_def split: option.splits if_splits)

lemma rewriteToLocal_envs [simp]:
  "environment_variables (rewriteToLocal h f vm) = environment_variables vm"
  by (simp add: rewriteToLocal_def)

lemma convert_success:
  assumes "convertWasmConfigFromRemoteToLocal L ec w c = (Inr nec, c')"
  shows "\<exists>pc vm a b d vm1 f h tc.
      config w = Some pc \<and> vm_config pc = Some vm \<and>
      readPullSettings L (Some vm) = Inr (a, b, d, Some vm1) \<and>
      anypbNewWasm L (w\<lparr>config := Some (pc\<lparr>vm_config := Some (rewriteToLocal h f vm1)\<rparr>)\<rparr>) = Inr tc \<and>
      anypbNewExtensionConfig L (ec\<lparr>typed_config := Some tc\<rparr>) = Inr nec"
proof -
  obtain pc where pc: "config w = Some pc"
    using assms
    by (cases "config w")
      (auto simp add: convertWasmConfigFromRemoteToLocal_def GetVmConfig_def readPullSettings_def)
  obtain vm where vm: "vm_config pc = Some vm"
    using assms pc
    by (cases "vm_config pc")
      (auto simp add: convertWasmConfigFromRemoteToLocal_def GetVmConfig_def readPullSettings_def)
  show ?thesis
    using assms pc vm
    by (auto simp add: convertWasmConfigFromRemoteToLocal_def GetVmConfig_def Let_def
        split: sum.splits option.splits prod.splits)
qed

lemma convert_strips:
  assumes "convertWasmConfigFromRemoteToLocal L ec w c = (Inr nec, c')"
  shows "\<exists>w' tc. anypbNewWasm L w' = Inr tc \<and>
           anypbNewExtensionConfig L (ec\<lparr>typed_config := Some tc\<rparr>) = Inr nec \<and>
           envPairs w' = filter (\<lambda>(k, v). \<not> HasPrefix k (IstioMetaPrefix L)) (envPairs w) \<and>
           noInternalKey L (envPairs w') \<and>
           envHostKeys w' = envHostKeys w \<and>
           envsNotEmpty w'"
proof -
  from convert_success [OF assms] obtain pc vm a b d vm1 f h tc where
    *: "config w = Some pc" "vm_config pc = Some vm"
      "readPullSettings L (Some vm) = Inr (a, b, d, Some vm1)"
      "anypbNewWasm L (w\<lparr>config := Some (pc\<lparr>vm_config := Some (rewriteToLocal h f vm1)\<rparr>)\<rparr>) = Inr tc"
      "anypbNewExtensionConfig L (ec\<lparr>typed_config := Some tc\<rparr>) = Inr nec"
    by blast
  define w' where "w' = w\<lparr>config := Some (pc\<lparr>vm_config := Some (rewriteToLocal h f vm1)\<rparr>)\<rparr>"
  have envs': "GetEnvironmentVariables (GetVmConfig (config w')) = environment_variables vm1"
    by (simp add: w'_def GetEnvironmentVariables_def GetVmConfig_def)
  have envs: "GetEnvironmentVariables (GetVmConfig (config w)) = environment_variables vm"
    using * by (simp add: GetEnvironmentVariables_def GetVmConfig_def)
  have "envPairs w' = filter (\<lambda>(k, v). \<not> HasPrefix k (IstioMetaPrefix L)) (envPairs w)
      \<and> envHostKeys w' = envHostKeys w \<and> envsNotEmpty w'"
  proof (cases "environment_variables vm")
    case None
    then have "vm1 = vm" using readPullSettings_no_envs *(3) by blast
    then show ?thesis using None
      by (simp add: envPairs_def envHostKeys_def envsNotEmpty_def envs envs')
  next
    case (Some e)
    then have "vm1 = stripInternalEnvs L vm e" using readPullSettings_envs *(3) by blast
    then show ?thesis
      using Some stripInternalEnvs_pairs [of L vm e "environment_variables vm1"]
      by (simp add: envPairs_def envHostKeys_def envsNotEmpty_def envs envs')
  qed
  moreover from this have "noInternalKey L (envPairs w')"
    by (simp add: noInternalKey_def list_all_iff)
  ultimately show ?thesis using *(4,5) unfolding w'_def by blast
qed

subsection \<open>The goroutines\<close>

lemma goroutine_outcome:
  assumes "i < length rs" "length errs = length rs" "errs ! i = None"
  shows "goroutine L i (rs, errs, c) =
           (case resourceOutcome L (rs ! i) c of
              ((r', e), c') \<Rightarrow> (rs[i := r'], errs[i := e], c'))"
proof -
  have "errs[i := None] = errs"
    using assms by (simp add: list_update_same_conv)
  then show ?thesis
    by (simp add: goroutine_def resourceOutcome_def split: sum.splits option.splits prod.splits)
qed

lemma fold_goroutine_slots:
  assumes "distinct sched" "\<forall>i \<in> set sched. i < length rs" "length errs = length rs"
    "\<forall>i \<in> set sched. errs ! i = None"
    "fold (goroutine L) sched (rs, errs, c) = (rs', errs', c')"
  shows "length rs' = length rs \<and> length errs' = length rs \<and>
     (\<forall>i < length rs.
        if i \<in> set sched
        then (rs' ! i, errs' ! i) =
               fst (resourceOutcome L (rs ! i)
                      (snd (snd (fold (goroutine L) (takeWhile (\<lambda>j. j \<noteq> i) sched) (rs, errs, c)))))
        else rs' ! i = rs ! i \<and> errs' ! i = errs ! i)"
  using assms
proof (induction sched arbitrary: rs errs c)
  case Nil
  then show ?case by simp
next
  case (Cons k ks)
  obtain r1 e1 c1 where out: "resourceOutcome L (rs ! k) c = ((r1, e1), c1)"
    by (metis surj_pair)
  have k: "k < length rs" "errs ! k = None" "k \<notin> set ks"
    using Cons.prems by auto
  have step: "goroutine L k (rs, errs, c) = (rs[k := r1], errs[k := e1], c1)"
    using goroutine_outcome [OF k(1) Cons.prems(3) k(2), of L c] out by simp
  have fold1: "fold (goroutine L) ks (rs[k := r1], errs[k := e1], c1) = (rs', errs', c')"
    using Cons.prems(5) step by simp
  have pre: "distinct ks" "\<forall>i \<in> set ks. i < length (rs[k := r1])"
    "length (errs[k := e1]) = length (rs[k := r1])"
    "\<forall>i \<in> set ks. errs[k := e1] ! i = None"
  proof -
    show "distinct ks" using Cons.prems(1) by simp
    show "\<forall>i \<in> set ks. i < length (rs[k := r1])" using Cons.prems(2) by simp
    show "length (errs[k := e1]) = length (rs[k := r1])" using Cons.prems(3) by simp
    show "\<forall>i \<in> set ks. errs[k := e1] ! i = None"
    proof
      fix i assume "i \<in> set ks"
      then have "i \<noteq> k" "errs ! i = None" using k(3) Cons.prems(4) by auto
      then show "errs[k := e1] ! i = None" by simp
    qed
  qed
  note IH = Cons.IH [OF pre fold1]
  have len: "length rs' = length rs" "length errs' = length rs"
    using IH by simp_all
  have slots: "if i \<in> set (k # ks)
        then (rs' ! i, errs' ! i) =
               fst (resourceOutcome L (rs ! i)
                      (snd (snd (fold (goroutine L) (takeWhile (\<lambda>j. j \<noteq> i) (k # ks)) (rs, errs, c)))))
        else rs' ! i = rs ! i \<and> errs' ! i = errs ! i" if i: "i < length rs" for i
  proof (cases "i = k")
    case True
    have "rs' ! k = r1 \<and> errs' ! k = e1"
      using IH k Cons.prems(3) by (auto split: if_splits)
    then show ?thesis using True out by simp
  next
    case False
    from IH i have
      "if i \<in> set ks
        then (rs' ! i, errs' ! i) =
               fst (resourceOutcome L (rs[k := r1] ! i)
                      (snd (snd (fold (goroutine L) (takeWhile (\<lambda>j. j \<noteq> i) ks)
                         (rs[k := r1], errs[k := e1], c1)))))
        else rs' ! i = rs[k := r1] ! i \<and> errs' ! i = errs[k := e1] ! i"
      by simp
    then show ?thesis using False step by (simp split: if_splits)
  qed
  show ?case using len slots by blast
qed

lemma runGoroutines_slots:
  assumes "validSchedule schedule (length resources)"
    "runGoroutines L schedule resources cache = (out, convertErrs, cache')"
  shows "length out = length resources \<and> length convertErrs = length resources \<and>
     (\<forall>i < length resources.
        (out ! i, convertErrs ! i) =
          fst (resourceOutcome L (resources ! i) (worldSeenBy L schedule resources cache i)))"
proof -
  have "distinct schedule" "\<forall>i \<in> set schedule. i < length resources"
    using assms(1) by (auto simp add: validSchedule_def)
  moreover have "length (replicate (length resources) (None :: conv_error option)) = length resources"
    by simp
  moreover have
    "\<forall>i \<in> set schedule. replicate (length resources) None ! i = (None :: conv_error option)"
    using assms(1) by (auto simp add: validSchedule_def)
  moreover have "fold (goroutine L) schedule (resources, replicate (length resources) None, cache)
      = (out, convertErrs, cache')"
    using assms(2) by (simp add: runGoroutines_def)
  ultimately have
    "length out = length resources \<and> length convertErrs = length resources \<and>
     (\<forall>i < length resources.
        if i \<in> set schedule
        then (out ! i, convertErrs ! i) =
               fst (resourceOutcome L (resources ! i)
                      (snd (snd (fold (goroutine L) (takeWhile (\<lambda>j. j \<noteq> i) schedule)
                          (resources, replicate (length resources) None, cache)))))
        else out ! i = resources ! i \<and> convertErrs ! i = replicate (length resources) None ! i)"
    by (rule fold_goroutine_slots [where errs = "replicate (length resources) None"])
  moreover have "\<forall>i < length resources. i \<in> set schedule"
    using assms(1) by (simp add: validSchedule_def)
  ultimately show ?thesis
    by (simp add: worldSeenBy_def runGoroutines_def)
qed

lemma tryUnmarshal_error_kind: "tryUnmarshal L r = Inl e \<Longrightarrow> e \<noteq> MultiError es"
  by (auto simp add: tryUnmarshal_def unmarshalWasmFilter_def
      split: sum.splits option.splits if_splits prod.splits)

lemma convert_error_kind:
  "convertWasmConfigFromRemoteToLocal L ec w c = (Inl e, c') \<Longrightarrow> e \<noteq> MultiError es"
  by (auto simp add: convertWasmConfigFromRemoteToLocal_def readPullSettings_def Let_def
      split: sum.splits option.splits if_splits prod.splits)

lemma resourceOutcome_error_kind:
  "snd (fst (resourceOutcome L r c)) \<noteq> Some (MultiError es)"
  by (auto simp add: resourceOutcome_def dest: tryUnmarshal_error_kind convert_error_kind
      split: sum.splits option.splits prod.splits)

lemma multierrorAppend_collected:
  "\<forall>e \<in> set errs. \<forall>es. e \<noteq> Some (MultiError es) \<Longrightarrow>
   multierrorAppend errs = collectedErrors errs"
proof (induction errs)
  case Nil
  show ?case by (simp add: multierrorAppend_def collectedErrors_def)
next
  case (Cons e errs)
  then have "multierrorAppend errs = collectedErrors errs" by simp
  moreover have "multierrorAppend (e # errs) =
      (case e of None \<Rightarrow> [] | Some (MultiError es) \<Rightarrow> es | Some err \<Rightarrow> [err]) @ multierrorAppend errs"
    by (simp add: multierrorAppend_def)
  moreover have "collectedErrors (e # errs) =
      (case e of None \<Rightarrow> [] | Some err \<Rightarrow> [err]) @ collectedErrors errs"
    by (cases e) (simp_all add: collectedErrors_def)
  moreover have "(case e of None \<Rightarrow> [] | Some (MultiError es) \<Rightarrow> es | Some err \<Rightarrow> [err])
      = (case e of None \<Rightarrow> [] | Some err \<Rightarrow> [err])"
    using Cons.prems by (auto split: option.splits conv_error.splits)
  ultimately show ?case by simp
qed

lemma collectedErrors_empty:
  "collectedErrors errs = [] \<longleftrightarrow> (\<forall>i < length errs. errs ! i = None)"
  by (auto simp add: collectedErrors_def filter_empty_conv all_set_conv_all_nth)

lemma collectedErrors_member:
  "i < length errs \<Longrightarrow> errs ! i = Some e \<Longrightarrow> e \<in> set (collectedErrors errs)"
proof -
  assume "i < length errs" "errs ! i = Some e"
  then have "Some e \<in> set (filter (\<lambda>x. x \<noteq> None) errs)"
    by (metis (mono_tags, lifting) mem_Collect_eq nth_mem option.distinct(1) set_filter)
  then have "the (Some e) \<in> the ` set (filter (\<lambda>x. x \<noteq> None) errs)"
    by (rule imageI)
  then show ?thesis by (simp add: collectedErrors_def)
qed

lemma collectedErrors_without_nil:
  "i < length errs \<Longrightarrow> errs ! i = None \<Longrightarrow>
   collectedErrors errs = collectedErrors (take i errs @ drop (Suc i) errs)"
proof -
  assume a: "i < length errs" "errs ! i = None"
  then have "errs = take i errs @ None # drop (Suc i) errs"
    by (metis id_take_nth_drop)
  then have "collectedErrors errs = collectedErrors (take i errs @ None # drop (Suc i) errs)"
    by simp
  then show ?thesis by (simp add: collectedErrors_def)
qed

lemma runGoroutines_errors:
  assumes "validSchedule schedule (length resources)"
    "runGoroutines L schedule resources cache = (out, convertErrs, cache')"
  shows "multierrorAppend convertErrs = collectedErrors convertErrs"
proof (rule multierrorAppend_collected, intro ballI allI)
  fix e es assume "e \<in> set convertErrs"
  then obtain i where i: "i < length convertErrs" "convertErrs ! i = e"
    by (auto simp add: in_set_conv_nth)
  from runGoroutines_slots [OF assms] i
  have "(out ! i, e) =
          fst (resourceOutcome L (resources ! i) (worldSeenBy L schedule resources cache i))"
    by auto
  then have "e = snd (fst (resourceOutcome L (resources ! i)
      (worldSeenBy L schedule resources cache i)))"
    by (metis snd_conv)
  then show "e \<noteq> Some (MultiError es)"
    by (simp add: resourceOutcome_error_kind)
qed

lemma tryUnmarshal_neither:
  "neitherRemoteNorLocal L r \<Longrightarrow> tryUnmarshal L r = Inl NoRemoteAndLocalLoad"
  by (auto simp add: neitherRemoteNorLocal_def tryUnmarshal_def
      split: sum.splits option.splits prod.splits)

lemma tryUnmarshal_noRemote:
  "noRemoteModule L r \<Longrightarrow> tryUnmarshal L r = Inr None"
  by (auto simp add: noRemoteModule_def tryUnmarshal_def
      split: sum.splits option.splits prod.splits)

lemma fold_goroutine_world:
  assumes "distinct sched" "\<forall>k \<in> set sched. k < length rs" "length errs = length rs"
    "\<forall>k \<in> set sched. errs ! k = None"
  shows "snd (snd (fold (goroutine L) sched (rs, errs, c))) =
         fold (\<lambda>k world. snd (resourceOutcome L (rs ! k) world)) sched c"
  using assms
proof (induction sched arbitrary: rs errs c)
  case Nil
  show ?case by simp
next
  case (Cons k ks)
  obtain r1 e1 c1 where out: "resourceOutcome L (rs ! k) c = ((r1, e1), c1)"
    by (metis surj_pair)
  have k: "k < length rs" "errs ! k = None" "k \<notin> set ks"
    using Cons.prems by auto
  have step: "goroutine L k (rs, errs, c) = (rs[k := r1], errs[k := e1], c1)"
    using goroutine_outcome [OF k(1) Cons.prems(3) k(2), of L c] out by simp
  have pre: "distinct ks" "\<forall>i \<in> set ks. i < length (rs[k := r1])"
    "length (errs[k := e1]) = length (rs[k := r1])"
    "\<forall>i \<in> set ks. errs[k := e1] ! i = None"
  proof -
    show "distinct ks" using Cons.prems(1) by simp
    show "\<forall>i \<in> set ks. i < length (rs[k := r1])" using Cons.prems(2) by simp
    show "length (errs[k := e1]) = length (rs[k := r1])" using Cons.prems(3) by simp
    show "\<forall>i \<in> set ks. errs[k := e1] ! i = None"
    proof
      fix i assume "i \<in> set ks"
      then have "i \<noteq> k" "errs ! i = None" using k(3) Cons.prems(4) by auto
      then show "errs[k := e1] ! i = None" by simp
    qed
  qed
  have "snd (snd (fold (goroutine L) ks (rs[k := r1], errs[k := e1], c1))) =
         fold (\<lambda>k' world. snd (resourceOutcome L (rs[k := r1] ! k') world)) ks c1"
    by (rule Cons.IH [OF pre])
  also have "\<dots> = fold (\<lambda>k' world. snd (resourceOutcome L (rs ! k') world)) ks c1"
  proof (rule fold_cong [OF refl refl])
    fix k' assume "k' \<in> set ks"
    then have "k' \<noteq> k" using k(3) by auto
    then show "(\<lambda>world. snd (resourceOutcome L (rs[k := r1] ! k') world)) =
        (\<lambda>world. snd (resourceOutcome L (rs ! k') world))"
      by simp
  qed
  finally show ?case using step out by simp
qed

lemma runGoroutines_world:
  assumes "distinct sched" "\<forall>k \<in> set sched. k < length rs"
  shows "snd (snd (runGoroutines L sched rs c)) =
         fold (\<lambda>k world. snd (resourceOutcome L (rs ! k) world)) sched c"
  unfolding runGoroutines_def
  using assms by (intro fold_goroutine_world) auto

lemma world_agrees:
  assumes "\<forall>k \<in> set sched. k < length rs"
    "\<forall>j < length rs. j \<noteq> i \<longrightarrow> rs' ! j = rs ! j"
    "leavesWorldUntouched L (rs ! i)" "leavesWorldUntouched L (rs' ! i)"
  shows "fold (\<lambda>k world. snd (resourceOutcome L (rs' ! k) world)) sched c =
         fold (\<lambda>k world. snd (resourceOutcome L (rs ! k) world)) sched c"
proof (rule fold_cong [OF refl refl])
  fix k assume k: "k \<in> set sched"
  show "(\<lambda>world. snd (resourceOutcome L (rs' ! k) world)) =
        (\<lambda>world. snd (resourceOutcome L (rs ! k) world))"
  proof (cases "k = i")
    case True
    then show ?thesis using assms(3,4) by (simp add: leavesWorldUntouched_def)
  next
    case False
    then show ?thesis using assms(1,2) k by simp
  qed
qed

lemma runGoroutines_other_slots:
  assumes valid: "validSchedule schedule (length resources)"
    and len: "length resources' = length resources"
    and same: "\<forall>j < length resources. j \<noteq> i \<longrightarrow> resources' ! j = resources ! j"
    and untouched: "leavesWorldUntouched L (resources ! i)"
      "leavesWorldUntouched L (resources' ! i)"
    and run: "runGoroutines L schedule resources cache = (out, convertErrs, cache')"
    and run': "runGoroutines L schedule resources' cache = (out', convertErrs', cache'')"
  shows "cache'' = cache' \<and>
     (\<forall>j < length resources. j \<noteq> i \<longrightarrow> out' ! j = out ! j \<and> convertErrs' ! j = convertErrs ! j)"
proof -
  have sched: "distinct schedule" "\<forall>k \<in> set schedule. k < length resources"
    using valid by (auto simp add: validSchedule_def)
  have valid': "validSchedule schedule (length resources')"
    using valid len by simp
  have worlds: "snd (snd (runGoroutines L s resources' cache)) =
      snd (snd (runGoroutines L s resources cache))"
    if "distinct s" "set s \<subseteq> set schedule" for s
  proof -
    have b: "\<forall>k \<in> set s. k < length resources" using that(2) sched(2) by auto
    then have b': "\<forall>k \<in> set s. k < length resources'" using len by simp
    show ?thesis
      using runGoroutines_world [OF that(1) b, of L cache]
        runGoroutines_world [OF that(1) b', of L cache]
        world_agrees [OF b same untouched, of cache]
      by simp
  qed
  have "cache'' = cache'"
    using worlds [of schedule] sched(1) run run' by simp
  moreover have "out' ! j = out ! j \<and> convertErrs' ! j = convertErrs ! j"
    if j: "j < length resources" "j \<noteq> i" for j
  proof -
    have "distinct (takeWhile (\<lambda>k. k \<noteq> j) schedule)"
      using sched(1) by (rule distinct_takeWhile)
    moreover have "set (takeWhile (\<lambda>k. k \<noteq> j) schedule) \<subseteq> set schedule"
      by (auto dest: set_takeWhileD)
    ultimately have w: "worldSeenBy L schedule resources' cache j =
        worldSeenBy L schedule resources cache j"
      unfolding worldSeenBy_def by (rule worlds)
    have "(out ! j, convertErrs ! j) =
        fst (resourceOutcome L (resources ! j) (worldSeenBy L schedule resources cache j))"
      using runGoroutines_slots [OF valid run] j(1) by blast
    moreover have "(out' ! j, convertErrs' ! j) =
        fst (resourceOutcome L (resources' ! j) (worldSeenBy L schedule resources' cache j))"
      using runGoroutines_slots [OF valid' run'] j(1) len by simp
    moreover have "resources' ! j = resources ! j" using same j by blast
    ultimately show ?thesis using w by (metis prod.inject)
  qed
  ultimately show ?thesis by blast
qed

subsection \<open>A batch of five resources\<close>

lemma exampleBatch_run:
  "runGoroutines exampleLib [2, 0, 4, 3, 1]
     [exampleResource ''neither'', exampleResource ''rbac'', exampleResource ''remote'',
      exampleResource ''local'', \<lparr>type_url = ''type/Other'', any_value = []\<rparr>] []
   = ([exampleResource ''neither'', exampleResource ''rbac'',
       \<lparr>type_url = ''type/TypedExtensionConfig'', any_value = ''/cache/old''\<rparr>,
       exampleResource ''local'', \<lparr>type_url = ''type/Other'', any_value = []\<rparr>],
      [Some NoRemoteAndLocalLoad, None, None, None,
       Some (UnmarshalExtensionConfigFailed ''mismatched message type'')],
      [''/cache/old''])"
  by (simp add: runGoroutines_def goroutine_def tryUnmarshal_def unmarshalWasmFilter_def
        convertWasmConfigFromRemoteToLocal_def readPullSettings_def
        stripInternalEnvs_def rewriteToLocal_def containsWamrAotInCustomSection_def
        exampleLib_def exampleWasm_def exampleRemote_def exampleSections_def exampleDecode_def
        exampleResource_def GetVmConfig_def GetCode_def GetRemote_def GetLocal_def
        KeyValuesLookup_def KeyValuesLen_def HasPrefix_def TrimPrefix_def Let_def
        wamrAotPrefix_def wamrAot_def wamrAotMaxVersion_def)

section \<open>The properties\<close>

subsection \<open>The runtime hint\<close>

text \<open>
  C9. When the file is read and compiled, the runtime hint is granted exactly when the
  first custom section whose name starts with \<open>wamr-aot-\<close> carries a version that parses
  and is less than \<open>2.1.0\<close>, or a section named \<open>wamr-aot\<close> comes before every section
  with that prefix. Once a section with the prefix is among the first \<open>n\<close> sections, the
  sections after them are not examined. A section with the prefix and a version that
  is not less than \<open>2.1.0\<close>, reached by the loop, gives no hint, whatever follows it.
\<close>
theorem wamr_hint_decided_by_first_section:
  assumes "ReadFile L world path = Inr wasmBinary"
    and "CompileModule L wasmBinary = Inr sections"
  shows "(containsWamrAotInCustomSection L world path \<longleftrightarrow> wamrHintGranted L sections)
     \<and> (\<forall>n. (\<exists>s \<in> set (take n sections). HasPrefix (cs_name s) wamrAotPrefix) \<longrightarrow>
            containsWamrAotInCustomSection L world path = scanCustomSections L (take n sections))
     \<and> (\<forall>pre s rest v.
            sections = pre @ s # rest \<and> list_all skippedSection pre \<and>
            HasPrefix (cs_name s) wamrAotPrefix \<and>
            NewVersion L (TrimPrefix (cs_name s) wamrAotPrefix) = Some v \<and>
            \<not> LessThan L v (NewVersion L wamrAotMaxVersion)
            \<longrightarrow> \<not> containsWamrAotInCustomSection L world path)"
proof -
  have run: "containsWamrAotInCustomSection L world path = scanCustomSections L sections"
    using assms by (simp add: containsWamrAotInCustomSection_def)
  have "scanCustomSections L sections \<longleftrightarrow> wamrHintGranted L sections"
    by (rule scan_iff)
  moreover have "scanCustomSections L sections = scanCustomSections L (take n sections)"
    if "\<exists>s \<in> set (take n sections). HasPrefix (cs_name s) wamrAotPrefix" for n
    using that by (rule scan_prefix_only)
  moreover have "\<not> scanCustomSections L sections"
    if "sections = pre @ s # rest" "list_all skippedSection pre"
      "HasPrefix (cs_name s) wamrAotPrefix"
      "NewVersion L (TrimPrefix (cs_name s) wamrAotPrefix) = Some v"
      "\<not> LessThan L v (NewVersion L wamrAotMaxVersion)" for pre s rest v
  proof -
    have "scanCustomSections L sections = scanCustomSections L (s # rest)"
      using that(1,2) by (simp add: scan_skip)
    then show ?thesis using that(3,4,5) by simp
  qed
  ultimately show ?thesis unfolding run by blast
qed

theorem wamr_hint_decided_by_first_section_witness:
  "ReadFile exampleLib [''/cache/new''] ''/cache/new'' = Inr ''new''
   \<and> CompileModule exampleLib ''new'' =
       Inr [\<lparr>cs_name = ''wamr-aot-2.1.0'', cs_data = []\<rparr>, \<lparr>cs_name = ''wamr-aot'', cs_data = []\<rparr>]
   \<and> \<not> containsWamrAotInCustomSection exampleLib [''/cache/new''] ''/cache/new''"
proof -
  have h1: "ReadFile exampleLib [''/cache/new''] ''/cache/new'' = Inr ''new''"
    by (simp add: exampleLib_def TrimPrefix_def HasPrefix_def)
  have h2: "CompileModule exampleLib ''new'' =
       Inr [\<lparr>cs_name = ''wamr-aot-2.1.0'', cs_data = []\<rparr>, \<lparr>cs_name = ''wamr-aot'', cs_data = []\<rparr>]"
    by (simp add: exampleLib_def exampleSections_def)
  have "\<not> wamrHintGranted exampleLib
       [\<lparr>cs_name = ''wamr-aot-2.1.0'', cs_data = []\<rparr>, \<lparr>cs_name = ''wamr-aot'', cs_data = []\<rparr>]"
    by (simp add: wamrHintGranted_def firstVersionedSection_def versionBelowMax_def
        bareSectionBeforeVersioned_def HasPrefix_def wamrAotPrefix_def wamrAot_def
        wamrAotMaxVersion_def exampleLib_def)
  then have "\<not> containsWamrAotInCustomSection exampleLib [''/cache/new''] ''/cache/new''"
    using wamr_hint_decided_by_first_section [OF h1 h2] by blast
  with h1 h2 show ?thesis by blast
qed

subsection \<open>The inspection never fails the conversion\<close>

text \<open>
  C8. The inspection of the fetched file gives no hint when the file cannot be read,
  when its bytes do not compile, and when the version that the loop tries to parse
  (that of the first section with the prefix \<open>wamr-aot-\<close>, reached before any section
  named \<open>wamr-aot\<close>) does not parse. The result of the inspection is a boolean and
  never an error. When the inspection gives no hint for the file the cache returns, the conversion is
  the one made with a library whose files cannot be read; without the hint the rewrite
  changes the code source of the VM config and nothing else.
\<close>
theorem inspection_fails_open:
  "(\<forall>err. ReadFile L world path = Inl err \<longrightarrow>
          \<not> containsWamrAotInCustomSection L world path)
   \<and> (\<forall>wasmBinary err.
          ReadFile L world path = Inr wasmBinary \<and> CompileModule L wasmBinary = Inl err \<longrightarrow>
          \<not> containsWamrAotInCustomSection L world path)
   \<and> (\<forall>wasmBinary pre s rest.
          ReadFile L world path = Inr wasmBinary \<and>
          CompileModule L wasmBinary = Inr (pre @ s # rest) \<and>
          list_all skippedSection pre \<and> HasPrefix (cs_name s) wamrAotPrefix \<and>
          NewVersion L (TrimPrefix (cs_name s) wamrAotPrefix) = None \<longrightarrow>
          \<not> containsWamrAotInCustomSection L world path)
   \<and> ((\<forall>u opts f world'.
          cacheGet L cache u opts = (Inr f, world') \<longrightarrow>
          \<not> containsWamrAotInCustomSection L world' f) \<longrightarrow>
        convertWasmConfigFromRemoteToLocal L ec w cache =
        convertWasmConfigFromRemoteToLocal (withoutInspection L) ec w cache)
   \<and> rewriteToLocal False f vm =
        vm\<lparr>vm_code := Some (AsyncDataSource_Local (DataSource_Filename f))\<rparr>"
proof -
  have unreadable: "\<not> containsWamrAotInCustomSection L world path"
    if "ReadFile L world path = Inl err" for err
    using that by (simp add: containsWamrAotInCustomSection_def)
  have uncompiled: "\<not> containsWamrAotInCustomSection L world path"
    if "ReadFile L world path = Inr wasmBinary" "CompileModule L wasmBinary = Inl err"
    for wasmBinary err
    using that by (simp add: containsWamrAotInCustomSection_def)
  have unparsed: "\<not> containsWamrAotInCustomSection L world path"
    if "ReadFile L world path = Inr wasmBinary"
      "CompileModule L wasmBinary = Inr (pre @ s # rest)"
      "list_all skippedSection pre" "HasPrefix (cs_name s) wamrAotPrefix"
      "NewVersion L (TrimPrefix (cs_name s) wamrAotPrefix) = None"
    for wasmBinary pre s rest
  proof -
    have "containsWamrAotInCustomSection L world path = scanCustomSections L (s # rest)"
      using that(1,2,3) by (simp add: containsWamrAotInCustomSection_def scan_skip)
    then show ?thesis using that(4,5) by simp
  qed
  have proceeds: "convertWasmConfigFromRemoteToLocal L ec w cache =
        convertWasmConfigFromRemoteToLocal (withoutInspection L) ec w cache"
    if H: "\<forall>u opts f world'.
          cacheGet L cache u opts = (Inr f, world') \<longrightarrow>
          \<not> containsWamrAotInCustomSection L world' f"
  proof -
    have none: "\<not> containsWamrAotInCustomSection (withoutInspection L) world' f'" for world' f'
      by (simp add: containsWamrAotInCustomSection_def withoutInspection_def)
    have same: "readPullSettings (withoutInspection L) v = readPullSettings L v" for v
      by (simp add: withoutInspection_def)
    have fields: "cacheGet (withoutInspection L) = cacheGet L"
      "anypbNewWasm (withoutInspection L) = anypbNewWasm L"
      "anypbNewExtensionConfig (withoutInspection L) = anypbNewExtensionConfig L"
      "AsDuration (withoutInspection L) = AsDuration L"
      by (simp_all add: withoutInspection_def)
    show ?thesis
      using H
      by (auto simp add: convertWasmConfigFromRemoteToLocal_def same fields none Let_def
          split: sum.splits option.splits prod.splits)
  qed
  have hintless: "rewriteToLocal False f vm =
        vm\<lparr>vm_code := Some (AsyncDataSource_Local (DataSource_Filename f))\<rparr>"
    by (simp add: rewriteToLocal_def)
  show ?thesis
    using unreadable uncompiled unparsed proceeds hintless by blast
qed

theorem inspection_fails_open_witness:
  "ReadFile exampleLib [] ''/cache/old'' = Inl ''no such file''
   \<and> \<not> containsWamrAotInCustomSection exampleLib [] ''/cache/old''
   \<and> ReadFile exampleLib [''/cache/x''] ''/cache/x'' = Inr ''x''
   \<and> CompileModule exampleLib ''x'' = Inl ''invalid magic number''
   \<and> \<not> containsWamrAotInCustomSection exampleLib [''/cache/x''] ''/cache/x''
   \<and> ReadFile exampleLib [''/cache/dev''] ''/cache/dev'' = Inr ''dev''
   \<and> CompileModule exampleLib ''dev'' =
        Inr ([\<lparr>cs_name = ''name'', cs_data = []\<rparr>] @ \<lparr>cs_name = ''wamr-aot-dev'', cs_data = []\<rparr> # [])
   \<and> NewVersion exampleLib (TrimPrefix ''wamr-aot-dev'' wamrAotPrefix) = None
   \<and> \<not> containsWamrAotInCustomSection exampleLib [''/cache/dev''] ''/cache/dev''
   \<and> convertWasmConfigFromRemoteToLocal
         (exampleLib\<lparr>CompileModule := \<lambda>b. Inl ''invalid magic number''\<rparr>)
         exampleExtensionConfig (exampleWasm [] (exampleRemote ''old'' [])) []
       = (Inr \<lparr>type_url = ''type/TypedExtensionConfig'', any_value = ''/cache/old''\<rparr>,
          [''/cache/old''])"
proof -
  have r1: "ReadFile exampleLib [] ''/cache/old'' = Inl ''no such file''"
    by (simp add: exampleLib_def)
  have r2: "ReadFile exampleLib [''/cache/x''] ''/cache/x'' = Inr ''x''"
    by (simp add: exampleLib_def TrimPrefix_def HasPrefix_def)
  have c2: "CompileModule exampleLib ''x'' = Inl ''invalid magic number''"
    by (simp add: exampleLib_def exampleSections_def)
  have r3: "ReadFile exampleLib [''/cache/dev''] ''/cache/dev'' = Inr ''dev''"
    by (simp add: exampleLib_def TrimPrefix_def HasPrefix_def)
  have c3: "CompileModule exampleLib ''dev'' =
        Inr ([\<lparr>cs_name = ''name'', cs_data = []\<rparr>] @ \<lparr>cs_name = ''wamr-aot-dev'', cs_data = []\<rparr> # [])"
    by (simp add: exampleLib_def exampleSections_def)
  have s3: "list_all skippedSection [\<lparr>cs_name = ''name'', cs_data = []\<rparr>]"
    by (simp add: skippedSection_def HasPrefix_def wamrAotPrefix_def wamrAot_def)
  have p3: "HasPrefix (cs_name \<lparr>cs_name = ''wamr-aot-dev'', cs_data = []\<rparr>) wamrAotPrefix"
    by (simp add: HasPrefix_def wamrAotPrefix_def)
  have v3: "NewVersion exampleLib (TrimPrefix ''wamr-aot-dev'' wamrAotPrefix) = None"
    by (simp add: exampleLib_def TrimPrefix_def HasPrefix_def wamrAotPrefix_def)
  have v3': "NewVersion exampleLib
      (TrimPrefix (cs_name \<lparr>cs_name = ''wamr-aot-dev'', cs_data = []\<rparr>) wamrAotPrefix) = None"
    using v3 by simp
  have h4: "\<forall>u opts f world'.
          cacheGet (exampleLib\<lparr>CompileModule := \<lambda>b. Inl ''invalid magic number''\<rparr>) [] u opts
            = (Inr f, world') \<longrightarrow>
          \<not> containsWamrAotInCustomSection
               (exampleLib\<lparr>CompileModule := \<lambda>b. Inl ''invalid magic number''\<rparr>) world' f"
    by (simp add: containsWamrAotInCustomSection_def split: sum.splits)
  note inst = inspection_fails_open [of exampleLib]
  have "\<not> containsWamrAotInCustomSection exampleLib [] ''/cache/old''"
    using inst [of "[]" "''/cache/old''"] r1 by blast
  moreover have "\<not> containsWamrAotInCustomSection exampleLib [''/cache/x''] ''/cache/x''"
    using inst [of "[''/cache/x'']" "''/cache/x''"] r2 c2 by blast
  moreover have "\<not> containsWamrAotInCustomSection exampleLib [''/cache/dev''] ''/cache/dev''"
    using inst [of "[''/cache/dev'']" "''/cache/dev''"] r3 c3 s3 p3 v3' by blast
  moreover have "convertWasmConfigFromRemoteToLocal
         (exampleLib\<lparr>CompileModule := \<lambda>b. Inl ''invalid magic number''\<rparr>)
         exampleExtensionConfig (exampleWasm [] (exampleRemote ''old'' [])) []
       = (Inr \<lparr>type_url = ''type/TypedExtensionConfig'', any_value = ''/cache/old''\<rparr>,
          [''/cache/old''])"
  proof -
    have "convertWasmConfigFromRemoteToLocal
         (withoutInspection (exampleLib\<lparr>CompileModule := \<lambda>b. Inl ''invalid magic number''\<rparr>))
         exampleExtensionConfig (exampleWasm [] (exampleRemote ''old'' [])) []
       = (Inr \<lparr>type_url = ''type/TypedExtensionConfig'', any_value = ''/cache/old''\<rparr>,
          [''/cache/old''])"
      by (simp add: convertWasmConfigFromRemoteToLocal_def readPullSettings_def
          stripInternalEnvs_def rewriteToLocal_def containsWamrAotInCustomSection_def
          withoutInspection_def exampleLib_def exampleWasm_def exampleRemote_def
          exampleExtensionConfig_def GetVmConfig_def GetCode_def GetRemote_def GetLocal_def
          KeyValuesLookup_def KeyValuesLen_def HasPrefix_def TrimPrefix_def Let_def)
    then show ?thesis
      using inspection_fails_open
        [of "exampleLib\<lparr>CompileModule := \<lambda>b. Inl ''invalid magic number''\<rparr>" _ _ "[]"
          exampleExtensionConfig "exampleWasm [] (exampleRemote ''old'' [])"] h4
      by simp
  qed
  ultimately show ?thesis using r1 r2 c2 r3 c3 v3 by blast
qed

subsection \<open>The checksum, the pull secret and the pull policy\<close>

text \<open>
  C3. A remote Wasm config whose checksum is the string \<open>nil\<close> is converted exactly as
  the same config with the empty checksum: the result and the world after the call are
  equal, and the cache is asked with the empty checksum.
\<close>
theorem nil_checksum_is_empty_checksum:
  assumes "remoteChecksum w = Some ''nil''"
  shows "convertWasmConfigFromRemoteToLocal L ec w cache =
           convertWasmConfigFromRemoteToLocal L ec (withChecksum [] w) cache
       \<and> convertWasmConfigFromRemoteToLocal L ec w cache =
           convertWasmConfigFromRemoteToLocal (cacheSeesChecksum [] L) ec w cache"
proof (intro conjI)
  show "convertWasmConfigFromRemoteToLocal L ec w cache =
          convertWasmConfigFromRemoteToLocal L ec (withChecksum [] w) cache"
    using assms by (rule convert_nil_checksum)
  show "convertWasmConfigFromRemoteToLocal L ec w cache =
          convertWasmConfigFromRemoteToLocal (cacheSeesChecksum [] L) ec w cache"
    using assms by (rule convert_cache_sees_empty_checksum)
qed

theorem nil_checksum_is_empty_checksum_witness:
  "remoteChecksum (exampleWasm [] (exampleRemote ''old'' ''nil'')) = Some ''nil''
   \<and> convertWasmConfigFromRemoteToLocal exampleLib exampleExtensionConfig
         (exampleWasm [] (exampleRemote ''old'' ''nil'')) []
       = (Inr \<lparr>type_url = ''type/TypedExtensionConfig'', any_value = ''/cache/old''\<rparr>,
          [''/cache/old''])"
proof -
  have h: "remoteChecksum (exampleWasm [] (exampleRemote ''old'' ''nil'')) = Some ''nil''"
    by (simp add: remoteChecksum_def exampleWasm_def exampleRemote_def GetVmConfig_def
        GetCode_def GetRemote_def)
  have "convertWasmConfigFromRemoteToLocal exampleLib exampleExtensionConfig
         (withChecksum [] (exampleWasm [] (exampleRemote ''old'' ''nil''))) []
       = (Inr \<lparr>type_url = ''type/TypedExtensionConfig'', any_value = ''/cache/old''\<rparr>,
          [''/cache/old''])"
    by (simp add: convertWasmConfigFromRemoteToLocal_def readPullSettings_def
        stripInternalEnvs_def rewriteToLocal_def containsWamrAotInCustomSection_def
        withChecksum_def exampleLib_def exampleWasm_def exampleRemote_def exampleSections_def
        exampleExtensionConfig_def GetVmConfig_def GetCode_def GetRemote_def GetLocal_def
        KeyValuesLookup_def KeyValuesLen_def HasPrefix_def TrimPrefix_def Let_def
        wamrAotPrefix_def wamrAot_def wamrAotMaxVersion_def)
  then show ?thesis
    using h nil_checksum_is_empty_checksum [OF h, of exampleLib exampleExtensionConfig "[]"]
    by simp
qed

text \<open>
  C4. Upstream, a secret name that \<open>pullSecrets\<close> does not resolve is replaced by the
  empty string. A config whose environment variables hold the pull-secret key with the
  empty value is not converted: the conversion returns the missing-secret error and
  leaves the world as it found it, whatever the cache holds or would answer, so that
  the resource is kept and the error recorded for it.
\<close>
theorem missing_pull_secret_fails_before_cache:
  assumes "GetEnvironmentVariables (GetVmConfig (config w)) = Some envs"
    and "KeyValuesLookup (key_values envs) (WasmSecretEnv L) = Some []"
  shows "convertWasmConfigFromRemoteToLocal L ec w cache = (Inl MissingPullSecret, cache)
     \<and> (\<forall>resource. tryUnmarshal L resource = Inr (Some (ec, w)) \<longrightarrow>
           resourceOutcome L resource cache = ((resource, Some MissingPullSecret), cache))
     \<and> (\<forall>kvs pullSecrets secretName.
           KeyValuesLookup kvs (WasmSecretEnv L) = Some secretName \<and> secretName \<noteq> [] \<and>
           pullSecrets secretName = None \<longrightarrow>
           KeyValuesLookup (substitutePullSecret L pullSecrets kvs) (WasmSecretEnv L) = Some [])"
proof -
  have fails: "convertWasmConfigFromRemoteToLocal L ec w cache = (Inl MissingPullSecret, cache)"
    using assms by (rule convert_missing_secret)
  have kept: "resourceOutcome L resource cache = ((resource, Some MissingPullSecret), cache)"
    if "tryUnmarshal L resource = Inr (Some (ec, w))" for resource
    using that fails by (simp add: resourceOutcome_def)
  have upstream:
    "KeyValuesLookup (substitutePullSecret L pullSecrets kvs) (WasmSecretEnv L) = Some []"
    if "KeyValuesLookup kvs (WasmSecretEnv L) = Some secretName" "secretName \<noteq> []"
      "pullSecrets secretName = None" for kvs pullSecrets secretName
  proof (cases kvs)
    case None
    then show ?thesis using that(1) by (simp add: KeyValuesLookup_def)
  next
    case (Some al)
    then show ?thesis using that
      by (simp add: substitutePullSecret_def KeyValuesLookup_def update_conv')
  qed
  show ?thesis using fails kept upstream by blast
qed

theorem missing_pull_secret_fails_before_cache_witness:
  "GetEnvironmentVariables (GetVmConfig (config
       (exampleWasm [(''ISTIO_META_SECRET'', [])] (exampleRemote ''old'' []))))
     = Some \<lparr>host_env_keys = [], key_values = Some [(''ISTIO_META_SECRET'', [])]\<rparr>
   \<and> KeyValuesLookup (Some [(''ISTIO_META_SECRET'', [])]) (WasmSecretEnv exampleLib) = Some []
   \<and> convertWasmConfigFromRemoteToLocal exampleLib exampleExtensionConfig
         (exampleWasm [(''ISTIO_META_SECRET'', [])] (exampleRemote ''old'' [])) [''/cache/old'']
       = (Inl MissingPullSecret, [''/cache/old''])
   \<and> substitutePullSecret exampleLib (\<lambda>n. None) (Some [(''ISTIO_META_SECRET'', ''regcred'')])
       = Some [(''ISTIO_META_SECRET'', [])]"
proof -
  have h1: "GetEnvironmentVariables (GetVmConfig (config
       (exampleWasm [(''ISTIO_META_SECRET'', [])] (exampleRemote ''old'' []))))
     = Some \<lparr>host_env_keys = [], key_values = Some [(''ISTIO_META_SECRET'', [])]\<rparr>"
    by (simp add: exampleWasm_def GetVmConfig_def GetEnvironmentVariables_def)
  have h2: "KeyValuesLookup
       (key_values \<lparr>host_env_keys = [], key_values = Some [(''ISTIO_META_SECRET'', [])]\<rparr>)
       (WasmSecretEnv exampleLib) = Some []"
    by (simp add: KeyValuesLookup_def exampleLib_def)
  have h3: "substitutePullSecret exampleLib (\<lambda>n. None) (Some [(''ISTIO_META_SECRET'', ''regcred'')])
       = Some [(''ISTIO_META_SECRET'', [])]"
    by (simp add: substitutePullSecret_def KeyValuesLookup_def exampleLib_def)
  show ?thesis
    using h1 h2 h3
      missing_pull_secret_fails_before_cache
        [OF h1 h2, of exampleExtensionConfig "[''/cache/old'']"]
    by simp
qed

text \<open>
  C10. When the pull-policy key is present and its value is not a name of the enum,
  reading the settings does not fail on that account (it fails only for an empty pull
  secret), the policy read is \<open>UNSPECIFIED_POLICY\<close>, and the conversion is the one made
  with a cache that is always asked with that policy.
\<close>
theorem unknown_pull_policy_is_unspecified:
  assumes "GetEnvironmentVariables (GetVmConfig (config w)) = Some envs"
    and "KeyValuesLookup (key_values envs) (WasmPolicyEnv L) = Some ps"
    and "PullPolicy_value L ps = None"
  shows "(\<forall>err. readPullSettings L (GetVmConfig (config w)) = Inl err \<longrightarrow>
            KeyValuesLookup (key_values envs) (WasmSecretEnv L) = Some [])
     \<and> (\<forall>pullSecret pullPolicy resourceVersion vmo.
            readPullSettings L (GetVmConfig (config w))
              = Inr (pullSecret, pullPolicy, resourceVersion, vmo) \<longrightarrow>
            pullPolicy = PullPolicy_UNSPECIFIED_POLICY L)
     \<and> convertWasmConfigFromRemoteToLocal L ec w cache =
         convertWasmConfigFromRemoteToLocal
           (cacheSeesPolicy (PullPolicy_UNSPECIFIED_POLICY L) L) ec w cache"
proof -
  from assms(1) obtain vm where vm: "GetVmConfig (config w) = Some vm"
    "environment_variables vm = Some envs"
    by (auto simp add: GetEnvironmentVariables_def split: option.splits)
  have onlySecret: "KeyValuesLookup (key_values envs) (WasmSecretEnv L) = Some []"
    if "readPullSettings L (GetVmConfig (config w)) = Inl err" for err
    using that vm by (simp add: readPullSettings_def Let_def split: if_splits)
  have policy: "pullPolicy = PullPolicy_UNSPECIFIED_POLICY L"
    if "readPullSettings L (GetVmConfig (config w))
          = Inr (pullSecret, pullPolicy, resourceVersion, vmo)"
    for pullSecret pullPolicy resourceVersion vmo
    using that vm assms(2,3) by (auto simp add: readPullSettings_def Let_def split: if_splits)
  have same: "readPullSettings (cacheSeesPolicy p L) v = readPullSettings L v" for p v
    by (simp add: cacheSeesPolicy_def)
  have hint: "containsWamrAotInCustomSection (cacheSeesPolicy p L)
      = containsWamrAotInCustomSection L" for p
    by (simp add: cacheSeesPolicy_def)
  have fields: "cacheGet (cacheSeesPolicy p L) =
        (\<lambda>world u opts. cacheGet L world u (opts\<lparr>PullPolicy := p\<rparr>))"
      "anypbNewWasm (cacheSeesPolicy p L) = anypbNewWasm L"
      "anypbNewExtensionConfig (cacheSeesPolicy p L) = anypbNewExtensionConfig L"
      "AsDuration (cacheSeesPolicy p L) = AsDuration L" for p
    by (simp_all add: cacheSeesPolicy_def)
  have converts: "convertWasmConfigFromRemoteToLocal L ec w cache =
         convertWasmConfigFromRemoteToLocal
           (cacheSeesPolicy (PullPolicy_UNSPECIFIED_POLICY L) L) ec w cache"
  proof (cases "readPullSettings L (GetVmConfig (config w))")
    case (Inl err)
    then show ?thesis
      by (simp add: convertWasmConfigFromRemoteToLocal_def same)
  next
    case (Inr t)
    obtain a b d vmo where t: "t = (a, b, d, vmo)" by (metis surj_pair)
    have "b = PullPolicy_UNSPECIFIED_POLICY L" using policy Inr t by blast
    then show ?thesis using Inr t
      by (simp add: convertWasmConfigFromRemoteToLocal_def same hint fields Let_def
          split: option.splits sum.splits prod.splits)
  qed
  show ?thesis using onlySecret policy converts by blast
qed

theorem unknown_pull_policy_is_unspecified_witness:
  "GetEnvironmentVariables (GetVmConfig (config
       (exampleWasm [(''ISTIO_META_POLICY'', ''Sometimes'')] (exampleRemote ''old'' []))))
     = Some \<lparr>host_env_keys = [], key_values = Some [(''ISTIO_META_POLICY'', ''Sometimes'')]\<rparr>
   \<and> KeyValuesLookup (Some [(''ISTIO_META_POLICY'', ''Sometimes'')]) (WasmPolicyEnv exampleLib)
       = Some ''Sometimes''
   \<and> PullPolicy_value exampleLib ''Sometimes'' = None
   \<and> convertWasmConfigFromRemoteToLocal
         (cacheSeesPolicy (PullPolicy_UNSPECIFIED_POLICY exampleLib) exampleLib)
         exampleExtensionConfig
         (exampleWasm [(''ISTIO_META_POLICY'', ''Sometimes'')] (exampleRemote ''old'' [])) []
       = (Inr \<lparr>type_url = ''type/TypedExtensionConfig'', any_value = ''/cache/old''\<rparr>,
          [''/cache/old''])"
proof -
  have h1: "GetEnvironmentVariables (GetVmConfig (config
       (exampleWasm [(''ISTIO_META_POLICY'', ''Sometimes'')] (exampleRemote ''old'' []))))
     = Some \<lparr>host_env_keys = [], key_values = Some [(''ISTIO_META_POLICY'', ''Sometimes'')]\<rparr>"
    by (simp add: exampleWasm_def GetVmConfig_def GetEnvironmentVariables_def)
  have h2: "KeyValuesLookup
       (key_values \<lparr>host_env_keys = [], key_values = Some [(''ISTIO_META_POLICY'', ''Sometimes'')]\<rparr>)
       (WasmPolicyEnv exampleLib) = Some ''Sometimes''"
    by (simp add: KeyValuesLookup_def exampleLib_def)
  have h3: "PullPolicy_value exampleLib ''Sometimes'' = None"
    by (simp add: exampleLib_def)
  have run: "convertWasmConfigFromRemoteToLocal exampleLib exampleExtensionConfig
         (exampleWasm [(''ISTIO_META_POLICY'', ''Sometimes'')] (exampleRemote ''old'' [])) []
       = (Inr \<lparr>type_url = ''type/TypedExtensionConfig'', any_value = ''/cache/old''\<rparr>,
          [''/cache/old''])"
    by (simp add: convertWasmConfigFromRemoteToLocal_def readPullSettings_def
        stripInternalEnvs_def rewriteToLocal_def containsWamrAotInCustomSection_def
        exampleLib_def exampleWasm_def exampleRemote_def exampleSections_def
        exampleExtensionConfig_def GetVmConfig_def GetCode_def GetRemote_def GetLocal_def
        KeyValuesLookup_def KeyValuesLen_def HasPrefix_def TrimPrefix_def Let_def
        wamrAotPrefix_def wamrAot_def wamrAotMaxVersion_def)
  show ?thesis
    using h1 h2 h3 run
      unknown_pull_policy_is_unspecified [OF h1 h2 h3, of exampleExtensionConfig "[]"]
    by simp
qed

subsection \<open>The internal environment variables\<close>

text \<open>
  C7. When the conversion succeeds, the returned resource is the encoding of the
  extension config around a filter config \<open>w'\<close> whose key/value pairs are those of the
  input without the keys that have the internal prefix, so that none of its keys has
  the prefix; the host environment keys are kept as far as the structure is; and the
  structure of environment variables is dropped when both lists are empty, or its
  key/value map is nil when only the pairs are.
\<close>
theorem converted_config_has_no_internal_envs:
  assumes "convertWasmConfigFromRemoteToLocal L ec w cache = (Inr nec, cache')"
  shows "\<exists>w' tc.
           anypbNewWasm L w' = Inr tc \<and>
           anypbNewExtensionConfig L (ec\<lparr>typed_config := Some tc\<rparr>) = Inr nec \<and>
           envPairs w' = filter (\<lambda>(k, v). \<not> HasPrefix k (IstioMetaPrefix L)) (envPairs w) \<and>
           noInternalKey L (envPairs w') \<and>
           envHostKeys w' = envHostKeys w \<and>
           envsNotEmpty w'"
  using assms by (rule convert_strips)

theorem converted_config_has_no_internal_envs_witness:
  "convertWasmConfigFromRemoteToLocal exampleLib exampleExtensionConfig
       (exampleWasm [(''ISTIO_META_POLICY'', ''Always''), (''MODE'', ''strict'')]
          (exampleRemote ''old'' ''nil'')) []
     = (Inr \<lparr>type_url = ''type/TypedExtensionConfig'', any_value = ''/cache/old''\<rparr>,
        [''/cache/old''])
   \<and> (\<exists>w' tc.
         anypbNewWasm exampleLib w' = Inr tc \<and>
         anypbNewExtensionConfig exampleLib (exampleExtensionConfig\<lparr>typed_config := Some tc\<rparr>)
           = Inr \<lparr>type_url = ''type/TypedExtensionConfig'', any_value = ''/cache/old''\<rparr> \<and>
         envPairs w' = [(''MODE'', ''strict'')])"
proof -
  have h: "convertWasmConfigFromRemoteToLocal exampleLib exampleExtensionConfig
       (exampleWasm [(''ISTIO_META_POLICY'', ''Always''), (''MODE'', ''strict'')]
          (exampleRemote ''old'' ''nil'')) []
     = (Inr \<lparr>type_url = ''type/TypedExtensionConfig'', any_value = ''/cache/old''\<rparr>,
        [''/cache/old''])"
    by (simp add: convertWasmConfigFromRemoteToLocal_def readPullSettings_def
        stripInternalEnvs_def rewriteToLocal_def containsWamrAotInCustomSection_def
        exampleLib_def exampleWasm_def exampleRemote_def exampleSections_def
        exampleExtensionConfig_def GetVmConfig_def GetCode_def GetRemote_def GetLocal_def
        KeyValuesLookup_def KeyValuesLen_def HasPrefix_def TrimPrefix_def Let_def
        wamrAotPrefix_def wamrAot_def wamrAotMaxVersion_def)
  have pairs: "filter (\<lambda>(k, v). \<not> HasPrefix k (IstioMetaPrefix exampleLib))
       (envPairs (exampleWasm [(''ISTIO_META_POLICY'', ''Always''), (''MODE'', ''strict'')]
          (exampleRemote ''old'' ''nil''))) = [(''MODE'', ''strict'')]"
    by (simp add: envPairs_def exampleWasm_def exampleLib_def GetVmConfig_def
        GetEnvironmentVariables_def HasPrefix_def)
  from converted_config_has_no_internal_envs [OF h] obtain w' tc where
    "anypbNewWasm exampleLib w' = Inr tc"
    "anypbNewExtensionConfig exampleLib (exampleExtensionConfig\<lparr>typed_config := Some tc\<rparr>)
       = Inr \<lparr>type_url = ''type/TypedExtensionConfig'', any_value = ''/cache/old''\<rparr>"
    "envPairs w' = filter (\<lambda>(k, v). \<not> HasPrefix k (IstioMetaPrefix exampleLib))
       (envPairs (exampleWasm [(''ISTIO_META_POLICY'', ''Always''), (''MODE'', ''strict'')]
          (exampleRemote ''old'' ''nil'')))"
    by blast
  then show ?thesis using h pairs by metis
qed

subsection \<open>The batch\<close>

text \<open>
  C2. For every order in which the goroutines run, every resource of the batch is
  processed, whether or not others fail: the slot of index \<open>i\<close> in the output and in
  \<open>convertErrs\<close> holds the outcome of resource \<open>i\<close> alone, in the world that its goroutine
  finds. The returned error is nil exactly when no slot of \<open>convertErrs\<close> holds an
  error, and otherwise the multi-error of the errors recorded, in the order of the
  resources. The resources touch each other only through the world behind the cache:
  when resource \<open>i\<close> is settled without a change of the world (as a resource that fails
  before the cache is asked), putting any other such resource in its place changes no
  other slot of the output or of \<open>convertErrs\<close>, and not the world.
\<close>
theorem batch_processes_each_resource_and_aggregates:
  assumes "validSchedule schedule (length resources)"
    and "runGoroutines L schedule resources cache = (out, convertErrs, cache')"
  shows "length out = length resources \<and> length convertErrs = length resources
     \<and> (\<forall>i < length resources.
           (out ! i, convertErrs ! i) =
             fst (resourceOutcome L (resources ! i) (worldSeenBy L schedule resources cache i)))
     \<and> MaybeConvertWasmExtensionConfig L schedule resources cache =
           (out,
            (if \<forall>i < length resources. convertErrs ! i = None then None
             else Some (MultiError (collectedErrors convertErrs))),
            cache')
     \<and> (\<forall>i resources' out' convertErrs' cache''.
           length resources' = length resources \<and>
           (\<forall>j < length resources. j \<noteq> i \<longrightarrow> resources' ! j = resources ! j) \<and>
           leavesWorldUntouched L (resources ! i) \<and> leavesWorldUntouched L (resources' ! i) \<and>
           runGoroutines L schedule resources' cache = (out', convertErrs', cache'')
           \<longrightarrow> cache'' = cache' \<and>
               (\<forall>j < length resources. j \<noteq> i \<longrightarrow>
                  out' ! j = out ! j \<and> convertErrs' ! j = convertErrs ! j))"
proof -
  note slots = runGoroutines_slots [OF assms]
  have others: "cache'' = cache' \<and>
      (\<forall>j < length resources. j \<noteq> i \<longrightarrow>
         out' ! j = out ! j \<and> convertErrs' ! j = convertErrs ! j)"
    if "length resources' = length resources"
      "\<forall>j < length resources. j \<noteq> i \<longrightarrow> resources' ! j = resources ! j"
      "leavesWorldUntouched L (resources ! i)" "leavesWorldUntouched L (resources' ! i)"
      "runGoroutines L schedule resources' cache = (out', convertErrs', cache'')"
    for i resources' out' convertErrs' cache''
    using assms(1) that(1,2,3,4) assms(2) that(5) by (rule runGoroutines_other_slots)
  have "multierrorAppend convertErrs = collectedErrors convertErrs"
    using assms by (rule runGoroutines_errors)
  moreover have "collectedErrors convertErrs = [] \<longleftrightarrow>
      (\<forall>i < length resources. convertErrs ! i = None)"
    using slots by (simp add: collectedErrors_empty)
  ultimately have "MaybeConvertWasmExtensionConfig L schedule resources cache =
           (out,
            (if \<forall>i < length resources. convertErrs ! i = None then None
             else Some (MultiError (collectedErrors convertErrs))),
            cache')"
    using assms(2) by (simp add: MaybeConvertWasmExtensionConfig_def ErrorOrNil_def)
  with slots others show ?thesis by blast
qed

theorem batch_processes_each_resource_and_aggregates_witness:
  "validSchedule [2, 0, 4, 3, 1]
     (length [exampleResource ''neither'', exampleResource ''rbac'', exampleResource ''remote'',
              exampleResource ''local'', \<lparr>type_url = ''type/Other'', any_value = []\<rparr>])
   \<and> MaybeConvertWasmExtensionConfig exampleLib [2, 0, 4, 3, 1]
       [exampleResource ''neither'', exampleResource ''rbac'', exampleResource ''remote'',
        exampleResource ''local'', \<lparr>type_url = ''type/Other'', any_value = []\<rparr>] []
     = ([exampleResource ''neither'', exampleResource ''rbac'',
         \<lparr>type_url = ''type/TypedExtensionConfig'', any_value = ''/cache/old''\<rparr>,
         exampleResource ''local'', \<lparr>type_url = ''type/Other'', any_value = []\<rparr>],
        Some (MultiError [NoRemoteAndLocalLoad,
                          UnmarshalExtensionConfigFailed ''mismatched message type'']),
        [''/cache/old''])
   \<and> fst (runGoroutines exampleLib [2, 0, 4, 3, 1]
         [exampleResource ''rbac'', exampleResource ''rbac'', exampleResource ''remote'',
          exampleResource ''local'', \<lparr>type_url = ''type/Other'', any_value = []\<rparr>] []) ! 2
       = \<lparr>type_url = ''type/TypedExtensionConfig'', any_value = ''/cache/old''\<rparr>
   \<and> fst (snd (runGoroutines exampleLib [2, 0, 4, 3, 1]
         [exampleResource ''rbac'', exampleResource ''rbac'', exampleResource ''remote'',
          exampleResource ''local'', \<lparr>type_url = ''type/Other'', any_value = []\<rparr>] [])) ! 4
       = Some (UnmarshalExtensionConfigFailed ''mismatched message type'')"
proof -
  have h: "validSchedule [2, 0, 4, 3, 1]
     (length [exampleResource ''neither'', exampleResource ''rbac'', exampleResource ''remote'',
              exampleResource ''local'', \<lparr>type_url = ''type/Other'', any_value = []\<rparr>])"
    by (auto simp add: validSchedule_def)
  have errs: "\<not> (\<forall>i < length [exampleResource ''neither'', exampleResource ''rbac'',
        exampleResource ''remote'', exampleResource ''local'',
        \<lparr>type_url = ''type/Other'', any_value = []\<rparr>].
      [Some NoRemoteAndLocalLoad, None, None, None,
       Some (UnmarshalExtensionConfigFailed ''mismatched message type'')] ! i = None)"
    by auto
  have collected: "collectedErrors [Some NoRemoteAndLocalLoad, None, None, None,
       Some (UnmarshalExtensionConfigFailed ''mismatched message type'')]
     = [NoRemoteAndLocalLoad, UnmarshalExtensionConfigFailed ''mismatched message type'']"
    by (simp add: collectedErrors_def)
  from batch_processes_each_resource_and_aggregates [OF h exampleBatch_run]
  have "MaybeConvertWasmExtensionConfig exampleLib [2, 0, 4, 3, 1]
       [exampleResource ''neither'', exampleResource ''rbac'', exampleResource ''remote'',
        exampleResource ''local'', \<lparr>type_url = ''type/Other'', any_value = []\<rparr>] []
     = ([exampleResource ''neither'', exampleResource ''rbac'',
         \<lparr>type_url = ''type/TypedExtensionConfig'', any_value = ''/cache/old''\<rparr>,
         exampleResource ''local'', \<lparr>type_url = ''type/Other'', any_value = []\<rparr>],
        (if \<forall>i < length [exampleResource ''neither'', exampleResource ''rbac'',
               exampleResource ''remote'', exampleResource ''local'',
               \<lparr>type_url = ''type/Other'', any_value = []\<rparr>].
             [Some NoRemoteAndLocalLoad, None, None, None,
              Some (UnmarshalExtensionConfigFailed ''mismatched message type'')] ! i = None
         then None
         else Some (MultiError (collectedErrors [Some NoRemoteAndLocalLoad, None, None, None,
              Some (UnmarshalExtensionConfigFailed ''mismatched message type'')]))),
        [''/cache/old''])"
    by blast
  then have "MaybeConvertWasmExtensionConfig exampleLib [2, 0, 4, 3, 1]
       [exampleResource ''neither'', exampleResource ''rbac'', exampleResource ''remote'',
        exampleResource ''local'', \<lparr>type_url = ''type/Other'', any_value = []\<rparr>] []
     = ([exampleResource ''neither'', exampleResource ''rbac'',
         \<lparr>type_url = ''type/TypedExtensionConfig'', any_value = ''/cache/old''\<rparr>,
         exampleResource ''local'', \<lparr>type_url = ''type/Other'', any_value = []\<rparr>],
        Some (MultiError [NoRemoteAndLocalLoad,
                          UnmarshalExtensionConfigFailed ''mismatched message type'']),
        [''/cache/old''])"
    by (simp only: if_not_P [OF errs] collected)
  note first = this
  have u: "leavesWorldUntouched exampleLib
      ([exampleResource ''neither'', exampleResource ''rbac'', exampleResource ''remote'',
        exampleResource ''local'', \<lparr>type_url = ''type/Other'', any_value = []\<rparr>] ! 0)"
    by (simp add: leavesWorldUntouched_def resourceOutcome_def tryUnmarshal_def
        unmarshalWasmFilter_def exampleLib_def exampleResource_def exampleDecode_def
        exampleWasm_def GetVmConfig_def GetCode_def GetRemote_def GetLocal_def)
  have u': "leavesWorldUntouched exampleLib
      ([exampleResource ''rbac'', exampleResource ''rbac'', exampleResource ''remote'',
        exampleResource ''local'', \<lparr>type_url = ''type/Other'', any_value = []\<rparr>] ! 0)"
    by (simp add: leavesWorldUntouched_def resourceOutcome_def tryUnmarshal_def
        unmarshalWasmFilter_def exampleLib_def exampleResource_def)
  have same: "\<forall>j < length [exampleResource ''neither'', exampleResource ''rbac'',
        exampleResource ''remote'', exampleResource ''local'',
        \<lparr>type_url = ''type/Other'', any_value = []\<rparr>]. j \<noteq> 0 \<longrightarrow>
      [exampleResource ''rbac'', exampleResource ''rbac'', exampleResource ''remote'',
        exampleResource ''local'', \<lparr>type_url = ''type/Other'', any_value = []\<rparr>] ! j =
      [exampleResource ''neither'', exampleResource ''rbac'', exampleResource ''remote'',
        exampleResource ''local'', \<lparr>type_url = ''type/Other'', any_value = []\<rparr>] ! j"
    by (auto simp add: nth_Cons')
  obtain out' convertErrs' cache'' where run':
    "runGoroutines exampleLib [2, 0, 4, 3, 1]
         [exampleResource ''rbac'', exampleResource ''rbac'', exampleResource ''remote'',
          exampleResource ''local'', \<lparr>type_url = ''type/Other'', any_value = []\<rparr>] []
       = (out', convertErrs', cache'')"
    by (metis surj_pair)
  note ni = batch_processes_each_resource_and_aggregates [OF h exampleBatch_run,
      THEN conjunct2, THEN conjunct2, THEN conjunct2, THEN conjunct2, rule_format]
  have len: "length [exampleResource ''rbac'', exampleResource ''rbac'', exampleResource ''remote'',
        exampleResource ''local'', \<lparr>type_url = ''type/Other'', any_value = []\<rparr>] =
      length [exampleResource ''neither'', exampleResource ''rbac'',
        exampleResource ''remote'', exampleResource ''local'',
        \<lparr>type_url = ''type/Other'', any_value = []\<rparr>]"
    by simp
  have "cache'' = [''/cache/old''] \<and>
        (\<forall>j < length [exampleResource ''neither'', exampleResource ''rbac'',
            exampleResource ''remote'', exampleResource ''local'',
            \<lparr>type_url = ''type/Other'', any_value = []\<rparr>]. j \<noteq> 0 \<longrightarrow>
          out' ! j = [exampleResource ''neither'', exampleResource ''rbac'',
             \<lparr>type_url = ''type/TypedExtensionConfig'', any_value = ''/cache/old''\<rparr>,
             exampleResource ''local'', \<lparr>type_url = ''type/Other'', any_value = []\<rparr>] ! j \<and>
          convertErrs' ! j = [Some NoRemoteAndLocalLoad, None, None, None,
             Some (UnmarshalExtensionConfigFailed ''mismatched message type'')] ! j)"
    by (rule ni [OF conjI [OF len conjI [OF same conjI [OF u conjI [OF u' run']]]]])
  then have slots: "\<forall>j < length [exampleResource ''neither'', exampleResource ''rbac'',
            exampleResource ''remote'', exampleResource ''local'',
            \<lparr>type_url = ''type/Other'', any_value = []\<rparr>]. j \<noteq> 0 \<longrightarrow>
          out' ! j = [exampleResource ''neither'', exampleResource ''rbac'',
             \<lparr>type_url = ''type/TypedExtensionConfig'', any_value = ''/cache/old''\<rparr>,
             exampleResource ''local'', \<lparr>type_url = ''type/Other'', any_value = []\<rparr>] ! j \<and>
          convertErrs' ! j = [Some NoRemoteAndLocalLoad, None, None, None,
             Some (UnmarshalExtensionConfigFailed ''mismatched message type'')] ! j"
    by (rule conjunct2)
  have "out' ! 2 = \<lparr>type_url = ''type/TypedExtensionConfig'', any_value = ''/cache/old''\<rparr>"
    using slots [rule_format, of 2] by simp
  moreover have "convertErrs' ! 4 = Some (UnmarshalExtensionConfigFailed ''mismatched message type'')"
    using slots [rule_format, of 4] by simp
  ultimately have second:
    "fst (runGoroutines exampleLib [2, 0, 4, 3, 1]
         [exampleResource ''rbac'', exampleResource ''rbac'', exampleResource ''remote'',
          exampleResource ''local'', \<lparr>type_url = ''type/Other'', any_value = []\<rparr>] []) ! 2
       = \<lparr>type_url = ''type/TypedExtensionConfig'', any_value = ''/cache/old''\<rparr>"
    "fst (snd (runGoroutines exampleLib [2, 0, 4, 3, 1]
         [exampleResource ''rbac'', exampleResource ''rbac'', exampleResource ''remote'',
          exampleResource ''local'', \<lparr>type_url = ''type/Other'', any_value = []\<rparr>] [])) ! 4
       = Some (UnmarshalExtensionConfigFailed ''mismatched message type'')"
    by (simp_all only: run' fst_conv snd_conv)
  show ?thesis
    by (intro conjI h first second)
qed

text \<open>
  C5. A resource that decodes as a Wasm filter with neither a remote nor a local code
  source is rejected by \<open>tryUnmarshal\<close>; its goroutine records that error in its slot and
  leaves the resources and the world untouched, so that no fetch is attempted for it;
  and the error returned for the batch is a multi-error that contains it.
\<close>
theorem no_code_source_is_rejected_before_fetch:
  assumes "validSchedule schedule (length resources)"
    and "i < length resources"
    and "neitherRemoteNorLocal L (resources ! i)"
  shows "tryUnmarshal L (resources ! i) = Inl NoRemoteAndLocalLoad
     \<and> (\<forall>convertErrs world.
           goroutine L i (resources, convertErrs, world) =
             (resources, convertErrs[i := Some NoRemoteAndLocalLoad], world))
     \<and> (\<exists>es. fst (snd (MaybeConvertWasmExtensionConfig L schedule resources cache))
                = Some (MultiError es) \<and> NoRemoteAndLocalLoad \<in> set es)"
proof -
  have rejected: "tryUnmarshal L (resources ! i) = Inl NoRemoteAndLocalLoad"
    using assms(3) by (rule tryUnmarshal_neither)
  then have body: "goroutine L i (resources, convertErrs, world) =
             (resources, convertErrs[i := Some NoRemoteAndLocalLoad], world)"
    for convertErrs world
    by (simp add: goroutine_def)
  obtain out convertErrs cache' where
    run: "runGoroutines L schedule resources cache = (out, convertErrs, cache')"
    by (metis surj_pair)
  note slots = runGoroutines_slots [OF assms(1) run]
  have "(out ! i, convertErrs ! i) =
       fst (resourceOutcome L (resources ! i) (worldSeenBy L schedule resources cache i))"
    using slots assms(2) by blast
  then have slot: "convertErrs ! i = Some NoRemoteAndLocalLoad"
    using rejected by (simp add: resourceOutcome_def)
  have "i < length convertErrs" using slots assms(2) by simp
  then have member: "NoRemoteAndLocalLoad \<in> set (collectedErrors convertErrs)"
    using slot by (rule collectedErrors_member)
  then have "collectedErrors convertErrs \<noteq> []" by auto
  moreover have "multierrorAppend convertErrs = collectedErrors convertErrs"
    using assms(1) run by (rule runGoroutines_errors)
  ultimately have "fst (snd (MaybeConvertWasmExtensionConfig L schedule resources cache))
      = Some (MultiError (collectedErrors convertErrs))"
    using run by (simp add: MaybeConvertWasmExtensionConfig_def ErrorOrNil_def)
  with member rejected body show ?thesis by blast
qed

theorem no_code_source_is_rejected_before_fetch_witness:
  "validSchedule [2, 0, 4, 3, 1]
     (length [exampleResource ''neither'', exampleResource ''rbac'', exampleResource ''remote'',
              exampleResource ''local'', \<lparr>type_url = ''type/Other'', any_value = []\<rparr>])
   \<and> neitherRemoteNorLocal exampleLib (exampleResource ''neither'')
   \<and> tryUnmarshal exampleLib (exampleResource ''neither'') = Inl NoRemoteAndLocalLoad
   \<and> (\<exists>es. fst (snd (MaybeConvertWasmExtensionConfig exampleLib [2, 0, 4, 3, 1]
              [exampleResource ''neither'', exampleResource ''rbac'', exampleResource ''remote'',
               exampleResource ''local'', \<lparr>type_url = ''type/Other'', any_value = []\<rparr>] []))
            = Some (MultiError es) \<and> NoRemoteAndLocalLoad \<in> set es)"
proof -
  have h1: "validSchedule [2, 0, 4, 3, 1]
     (length [exampleResource ''neither'', exampleResource ''rbac'', exampleResource ''remote'',
              exampleResource ''local'', \<lparr>type_url = ''type/Other'', any_value = []\<rparr>])"
    by (auto simp add: validSchedule_def)
  have h2: "0 < length [exampleResource ''neither'', exampleResource ''rbac'',
      exampleResource ''remote'', exampleResource ''local'',
      \<lparr>type_url = ''type/Other'', any_value = []\<rparr>]"
    by simp
  have n: "neitherRemoteNorLocal exampleLib (exampleResource ''neither'')"
    by (simp add: neitherRemoteNorLocal_def unmarshalWasmFilter_def exampleLib_def
        exampleResource_def exampleDecode_def exampleWasm_def GetVmConfig_def GetCode_def
        GetRemote_def GetLocal_def)
  have h3: "neitherRemoteNorLocal exampleLib
      ([exampleResource ''neither'', exampleResource ''rbac'', exampleResource ''remote'',
        exampleResource ''local'', \<lparr>type_url = ''type/Other'', any_value = []\<rparr>] ! 0)"
    using n by simp
  show ?thesis
    using h1 n no_code_source_is_rejected_before_fetch [OF h1 h2 h3, of "[]"] by simp
qed

text \<open>
  C6. A resource that is no Wasm filter (an extension config whose typed config is of
  another type), or a Wasm filter with a local code source, is left as it is in the
  output and has no error in its slot; its goroutine changes neither the slices nor
  the world; and the error returned for the batch is the aggregate of the other slots.
\<close>
theorem resource_without_remote_module_passes_through:
  assumes "validSchedule schedule (length resources)"
    and "i < length resources"
    and "noRemoteModule L (resources ! i)"
    and "runGoroutines L schedule resources cache = (out, convertErrs, cache')"
  shows "out ! i = resources ! i \<and> convertErrs ! i = None
     \<and> (\<forall>errs world. goroutine L i (resources, errs, world) = (resources, errs, world))
     \<and> fst (snd (MaybeConvertWasmExtensionConfig L schedule resources cache)) =
         ErrorOrNil (collectedErrors (take i convertErrs @ drop (Suc i) convertErrs))"
proof -
  have bypass: "tryUnmarshal L (resources ! i) = Inr None"
    using assms(3) by (rule tryUnmarshal_noRemote)
  then have body: "goroutine L i (resources, errs, world) = (resources, errs, world)"
    for errs world
    by (simp add: goroutine_def)
  note slots = runGoroutines_slots [OF assms(1,4)]
  have "(out ! i, convertErrs ! i) =
       fst (resourceOutcome L (resources ! i) (worldSeenBy L schedule resources cache i))"
    using slots assms(2) by blast
  then have slot: "out ! i = resources ! i" "convertErrs ! i = None"
    using bypass by (simp_all add: resourceOutcome_def)
  have "i < length convertErrs" using slots assms(2) by simp
  then have "collectedErrors convertErrs =
      collectedErrors (take i convertErrs @ drop (Suc i) convertErrs)"
    using slot(2) by (rule collectedErrors_without_nil)
  moreover have "multierrorAppend convertErrs = collectedErrors convertErrs"
    using assms(1,4) by (rule runGoroutines_errors)
  ultimately have "fst (snd (MaybeConvertWasmExtensionConfig L schedule resources cache)) =
         ErrorOrNil (collectedErrors (take i convertErrs @ drop (Suc i) convertErrs))"
    using assms(4) by (simp add: MaybeConvertWasmExtensionConfig_def)
  with slot body show ?thesis by blast
qed

theorem resource_without_remote_module_passes_through_witness:
  "validSchedule [2, 0, 4, 3, 1]
     (length [exampleResource ''neither'', exampleResource ''rbac'', exampleResource ''remote'',
              exampleResource ''local'', \<lparr>type_url = ''type/Other'', any_value = []\<rparr>])
   \<and> noRemoteModule exampleLib (exampleResource ''rbac'')
   \<and> noRemoteModule exampleLib (exampleResource ''local'')
   \<and> (\<forall>errs world.
         goroutine exampleLib 1
           ([exampleResource ''neither'', exampleResource ''rbac'', exampleResource ''remote'',
             exampleResource ''local'', \<lparr>type_url = ''type/Other'', any_value = []\<rparr>], errs, world)
         = ([exampleResource ''neither'', exampleResource ''rbac'', exampleResource ''remote'',
             exampleResource ''local'', \<lparr>type_url = ''type/Other'', any_value = []\<rparr>], errs, world))
   \<and> (\<forall>errs world.
         goroutine exampleLib 3
           ([exampleResource ''neither'', exampleResource ''rbac'', exampleResource ''remote'',
             exampleResource ''local'', \<lparr>type_url = ''type/Other'', any_value = []\<rparr>], errs, world)
         = ([exampleResource ''neither'', exampleResource ''rbac'', exampleResource ''remote'',
             exampleResource ''local'', \<lparr>type_url = ''type/Other'', any_value = []\<rparr>], errs, world))"
proof -
  have h1: "validSchedule [2, 0, 4, 3, 1]
     (length [exampleResource ''neither'', exampleResource ''rbac'', exampleResource ''remote'',
              exampleResource ''local'', \<lparr>type_url = ''type/Other'', any_value = []\<rparr>])"
    by (auto simp add: validSchedule_def)
  have i1: "1 < length [exampleResource ''neither'', exampleResource ''rbac'',
      exampleResource ''remote'', exampleResource ''local'',
      \<lparr>type_url = ''type/Other'', any_value = []\<rparr>]"
    by simp
  have i3: "3 < length [exampleResource ''neither'', exampleResource ''rbac'',
      exampleResource ''remote'', exampleResource ''local'',
      \<lparr>type_url = ''type/Other'', any_value = []\<rparr>]"
    by simp
  have rbac: "noRemoteModule exampleLib (exampleResource ''rbac'')"
    by (simp add: noRemoteModule_def unmarshalWasmFilter_def exampleLib_def
        exampleResource_def)
  have local: "noRemoteModule exampleLib (exampleResource ''local'')"
    by (simp add: noRemoteModule_def unmarshalWasmFilter_def exampleLib_def
        exampleResource_def exampleDecode_def exampleWasm_def GetVmConfig_def GetCode_def
        GetRemote_def GetLocal_def)
  have n1: "noRemoteModule exampleLib
      ([exampleResource ''neither'', exampleResource ''rbac'', exampleResource ''remote'',
        exampleResource ''local'', \<lparr>type_url = ''type/Other'', any_value = []\<rparr>] ! 1)"
    using rbac by simp
  have n3: "noRemoteModule exampleLib
      ([exampleResource ''neither'', exampleResource ''rbac'', exampleResource ''remote'',
        exampleResource ''local'', \<lparr>type_url = ''type/Other'', any_value = []\<rparr>] ! 3)"
    using local by simp
  show ?thesis
    using h1 rbac local
      resource_without_remote_module_passes_through [OF h1 i1 n1 exampleBatch_run]
      resource_without_remote_module_passes_through [OF h1 i3 n3 exampleBatch_run]
    by blast
qed

end
